theory Spec2Isabelle
  imports Complex_Main "HOL-Library.Sublist"
begin

section \<open>Geometry renderer task (FrameGraphGeometryRendererTask)\<close>

subsection \<open>Data\<close>

text \<open>An error thrown by the source: \<open>throw new Error(msg)\<close>, or the TypeError that
  JavaScript raises when a property of \<open>undefined\<close> is read.\<close>

datatype error = Error string | TypeError string

text \<open>IFrameGraphGeometryRendererTextureDescription: one requested output plane.\<close>

record IFrameGraphGeometryRendererTextureDescription =
  type :: int
  textureType :: int
  textureFormat :: int

text \<open>One entry of \<open>MaterialHelperGeometryRendering.GeometryTextureDescriptions\<close>. The
  catalogue itself is not among the files covered here: it is a parameter of the model.
  The fields are those the task reads (\<open>type\<close>, \<open>name\<close>, \<open>clearType\<close>,
  \<open>defineIndex\<close>). \<open>TextureClearType\<close> is a numeric enumeration used as an index
  into \<open>clearColors\<close>.\<close>

type_synonym TextureClearType = nat

record GeometryTextureDescription =
  gd_type :: int
  gd_name :: string
  gd_clearType :: TextureClearType
  gd_defineIndex :: nat

record Color4 =
  col_r :: real
  col_g :: real
  col_b :: real
  col_a :: real

definition Color4_new :: "real \<Rightarrow> real \<Rightarrow> real \<Rightarrow> real \<Rightarrow> Color4" where
  "Color4_new r0 g0 b0 a0 = \<lparr>col_r = r0, col_g = g0, col_b = b0, col_a = a0\<rparr>"

definition clearColors :: "Color4 list" where
  "clearColors = [Color4_new 0 0 0 0, Color4_new 1 1 1 1,
                  Color4_new 100000000 100000000 100000000 100000000]"

text \<open>Reading a JavaScript array at an index: \<open>undefined\<close> (here \<open>None\<close>) out of range.\<close>

definition js_index :: "'a list \<Rightarrow> nat \<Rightarrow> 'a option" where
  "js_index xs i = (if i < length xs then Some (xs ! i) else None)"

text \<open>A texture id (\<open>FrameGraphTextureId\<close>) is a handle or a reference to a named output of
  a task.\<close>

type_synonym FrameGraphTextureHandle = nat

datatype FrameGraphTextureId =
  Handle FrameGraphTextureHandle
| OutputReference string string

type_synonym FrameGraphObjectListId = nat

record FrameGraphObjectList =
  meshes :: "nat list"
  particleSystems :: "nat list"

text \<open>The options handed to \<open>frameGraph.createRenderTargetTexture\<close> and read back from
  \<open>frameGraph.getTextureDescription\<close>.\<close>

record TextureOptions =
  createMipMaps :: bool
  generateDepthBuffer :: bool
  textureCount :: nat
  opt_samples :: int
  types :: "int list"
  formats :: "int list"
  labels :: "string list"

record FrameGraphTextureCreationOptions =
  opt_size :: "nat \<times> nat"
  opt_sizeIsPercentage :: bool
  options :: TextureOptions

record FrameGraphGeometryRendererTask =
  name :: string
  depthTexture :: "FrameGraphTextureId option"
  objectList :: "FrameGraphObjectListId option"
  depthTest :: bool
  depthWrite :: bool
  task_size :: "nat \<times> nat"
  sizeIsPercentage :: bool
  samples :: int
  textureDescriptions :: "IFrameGraphGeometryRendererTextureDescription list"
  rtt_renderPassId :: nat
  rtt_size :: "nat \<times> nat"
  clearAttachmentsLayout :: "(TextureClearType \<times> nat list) list"
  allAttachmentsLayout :: "nat list"

text \<open>What the execute closure does to its collaborators (the render target texture,
  the scene and the render context), in the order of the calls.\<close>

datatype contextCall =
  SetRenderList "nat list"
| SetParticleSystemList "nat list"
| IncrementRenderId
| SetDepthStates bool bool
| ClearColorAttachments "Color4 option" "nat list"
| BindAttachments "nat list"
| Render

text \<open>Modelled from the spec: the render pass class is not among the files covered here.
  A pass has a name, a render target handle, output bindings (handle, mip level, logical
  name), an optional depth target handle and an execute closure; each setter writes its
  field. The closure given to \<open>setExecuteFunc\<close> reads the task when it runs, so it is a
  function of the task's state at that moment.\<close>

record RenderPass =
  pass_name :: string
  renderTarget :: "FrameGraphTextureHandle option"
  outputTextures :: "(FrameGraphTextureHandle \<times> nat \<times> string) list"
  renderTargetDepth :: "FrameGraphTextureHandle option"
  executeFunc :: "(FrameGraphGeometryRendererTask \<Rightarrow> contextCall list) option"

definition newRenderPass :: "string \<Rightarrow> RenderPass" where
  "newRenderPass n = \<lparr>pass_name = n, renderTarget = None, outputTextures = [],
     renderTargetDepth = None, executeFunc = None\<rparr>"

definition setRenderTarget :: "FrameGraphTextureHandle \<Rightarrow> RenderPass \<Rightarrow> RenderPass" where
  "setRenderTarget h p = p\<lparr>renderTarget := Some h\<rparr>"

definition setOutputTexture ::
  "FrameGraphTextureHandle \<Rightarrow> nat \<Rightarrow> string \<Rightarrow> RenderPass \<Rightarrow> RenderPass" where
  "setOutputTexture h i n p = p\<lparr>outputTextures := outputTextures p @ [(h, i, n)]\<rparr>"

definition setRenderTargetDepth :: "FrameGraphTextureHandle \<Rightarrow> RenderPass \<Rightarrow> RenderPass" where
  "setRenderTargetDepth h p = p\<lparr>renderTargetDepth := Some h\<rparr>"

definition setExecuteFunc ::
  "(FrameGraphGeometryRendererTask \<Rightarrow> contextCall list) \<Rightarrow> RenderPass \<Rightarrow> RenderPass" where
  "setExecuteFunc f p = p\<lparr>executeFunc := Some f\<rparr>"

text \<open>The collaborators of the task that are not among the files covered here, as
  parameters: the geometry plane catalogue, the swap-chain depth/stencil sentinel, the
  engine's \<open>buildTextureLayout\<close>, and the frame graph's operations over its own state
  \<open>'fg\<close>. A query of the frame graph may throw.\<close>

record 'fg collaborators =
  GeometryTextureDescriptions :: "GeometryTextureDescription list"
  backbufferDepthStencilTextureHandle :: FrameGraphTextureHandle
  buildTextureLayout :: "bool list \<Rightarrow> nat list"
  createRenderTargetTexture ::
    "string \<Rightarrow> FrameGraphTextureCreationOptions \<Rightarrow> 'fg \<Rightarrow> FrameGraphTextureHandle \<times> 'fg"
  getTextureHandle :: "FrameGraphTextureId \<Rightarrow> 'fg \<Rightarrow> error + FrameGraphTextureHandle"
  getTextureDescription ::
    "FrameGraphTextureHandle \<Rightarrow> 'fg \<Rightarrow> error + FrameGraphTextureCreationOptions"
  getObjectList :: "FrameGraphObjectListId \<Rightarrow> 'fg \<Rightarrow> error + FrameGraphObjectList"
  addRenderPass :: "string \<Rightarrow> 'fg \<Rightarrow> 'fg"

text \<open>The state a call of \<open>recordFrameGraph\<close> can change: the task itself, the frame
  graph, and the \<open>defines\<close> of the geometry rendering configurations (by render pass
  id, then by define index).\<close>

record 'fg state =
  this :: FrameGraphGeometryRendererTask
  frameGraph :: 'fg
  configurations :: "nat \<Rightarrow> nat \<Rightarrow> nat option"

subsection \<open>Helpers of the language\<close>

text \<open>\<open>Array.prototype.findIndex\<close>: the first index whose element satisfies the
  predicate; \<open>None\<close> stands for \<open>-1\<close>.\<close>

fun findIndex :: "('a \<Rightarrow> bool) \<Rightarrow> 'a list \<Rightarrow> nat option" where
  "findIndex P [] = None"
| "findIndex P (x # xs) =
     (if P x then Some 0 else (case findIndex P xs of None \<Rightarrow> None | Some i \<Rightarrow> Some (Suc i)))"

text \<open>A number in a template literal (integers only).\<close>

definition digitChar :: "nat \<Rightarrow> char" where
  "digitChar d = ''0123456789'' ! d"

function natToString :: "nat \<Rightarrow> string" where
  "natToString n = (if n < 10 then [digitChar n] else natToString (n div 10) @ [digitChar (n mod 10)])"
  by pat_completeness auto
termination
  by (relation "measure id") auto

declare natToString.simps [simp del]

definition numberToString :: "int \<Rightarrow> string" where
  "numberToString k = (if k < 0 then CHR ''-'' # natToString (nat (- k)) else natToString (nat k))"

text \<open>A JavaScript \<open>Map\<close> keeps its keys in insertion order: an association list with
  distinct keys, a new key going to the end.\<close>

definition Map_get :: "('k \<times> 'v) list \<Rightarrow> 'k \<Rightarrow> 'v option" where
  "Map_get m k = map_of m k"

fun Map_set :: "'k \<Rightarrow> 'v \<Rightarrow> ('k \<times> 'v) list \<Rightarrow> ('k \<times> 'v) list" where
  "Map_set k v [] = [(k, v)]"
| "Map_set k v (p # ps) = (if fst p = k then (k, v) # ps else p # Map_set k v ps)"

subsection \<open>The clear-attachment layouts\<close>

text \<open>The lookup that the three loops of the task share:
  \<open>index = GeometryTextureDescriptions.findIndex((f) => f.type === description.type)\<close>,
  then \<open>GeometryTextureDescriptions[index]\<close> (\<open>undefined\<close> when the index is -1).\<close>

definition geometryDescriptionOf ::
  "GeometryTextureDescription list \<Rightarrow> IFrameGraphGeometryRendererTextureDescription
     \<Rightarrow> GeometryTextureDescription option" where
  "geometryDescriptionOf cat description =
     (case findIndex (\<lambda>f. gd_type f = type description) cat of
        None \<Rightarrow> None
      | Some index \<Rightarrow> js_index cat index)"

text \<open>One turn of the loop of \<open>_buildClearAttachmentsLayout\<close>, at index \<open>i\<close>: a clear type
  met for the first time gets a layout of \<open>i\<close> times \<open>false\<close>; then every layout of the
  map receives one more entry, and so does \<open>allAttachmentsLayout\<close>.\<close>

definition clearLayoutStep ::
  "GeometryTextureDescription list \<Rightarrow> nat \<Rightarrow> IFrameGraphGeometryRendererTextureDescription
    \<Rightarrow> (TextureClearType \<times> bool list) list \<times> bool list
    \<Rightarrow> error + ((TextureClearType \<times> bool list) list \<times> bool list)" where
  "clearLayoutStep cat i description st =
     (case geometryDescriptionOf cat description of
        None \<Rightarrow> Inl (TypeError ''Cannot read properties of undefined (reading 'clearType')'')
      | Some geometryDescription \<Rightarrow>
          let m0 = fst st;
              m1 = (case Map_get m0 (gd_clearType geometryDescription) of
                      None \<Rightarrow> Map_set (gd_clearType geometryDescription) (replicate i False) m0
                    | Some layout \<Rightarrow> m0);
              m2 = map (\<lambda>(clearType, layout).
                          (clearType, layout @ [clearType = gd_clearType geometryDescription])) m1
          in Inr (m2, snd st @ [True]))"

fun clearLayoutLoop ::
  "GeometryTextureDescription list \<Rightarrow> IFrameGraphGeometryRendererTextureDescription list \<Rightarrow> nat
    \<Rightarrow> (TextureClearType \<times> bool list) list \<times> bool list
    \<Rightarrow> error + ((TextureClearType \<times> bool list) list \<times> bool list)" where
  "clearLayoutLoop cat [] i st = Inr st"
| "clearLayoutLoop cat (description # rest) i st =
     (case clearLayoutStep cat i description st of
        Inl e \<Rightarrow> Inl e
      | Inr st' \<Rightarrow> clearLayoutLoop cat rest (Suc i) st')"

text \<open>\<open>_buildClearAttachmentsLayout\<close>: the loop fills the two local variables; the
  fields of the task are written afterwards, through \<open>buildTextureLayout\<close>.\<close>

definition buildClearAttachmentsLayout ::
  "'fg collaborators \<Rightarrow> FrameGraphGeometryRendererTask \<Rightarrow> error + FrameGraphGeometryRendererTask" where
  "buildClearAttachmentsLayout env t =
     (case clearLayoutLoop (GeometryTextureDescriptions env) (textureDescriptions t) 0 ([], []) of
        Inl e \<Rightarrow> Inl e
      | Inr (clearAttachments, allAttachments) \<Rightarrow>
          Inr (t\<lparr>clearAttachmentsLayout :=
                    map (\<lambda>(clearType, layout). (clearType, buildTextureLayout env layout)) clearAttachments,
                 allAttachmentsLayout := buildTextureLayout env allAttachments\<rparr>))"

subsection \<open>Recording the task\<close>

definition taskPrefix :: "FrameGraphGeometryRendererTask \<Rightarrow> string" where
  "taskPrefix t = ''FrameGraphGeometryRendererTask '' @ name t"

text \<open>The loop of \<open>_createMultiRenderTargetTexture\<close>: \<open>index === -1\<close> is the case where
  the lookup finds no catalogue entry.\<close>

fun textureOptionsLoop ::
  "GeometryTextureDescription list \<Rightarrow> FrameGraphGeometryRendererTask
    \<Rightarrow> IFrameGraphGeometryRendererTextureDescription list
    \<Rightarrow> int list \<times> int list \<times> string list \<Rightarrow> error + (int list \<times> int list \<times> string list)" where
  "textureOptionsLoop cat t [] acc = Inr acc"
| "textureOptionsLoop cat t (description # rest) (tys, fmts, lbls) =
     (case geometryDescriptionOf cat description of
        None \<Rightarrow> Inl (Error (taskPrefix t @ '': unknown texture type ''
                              @ numberToString (type description)))
      | Some geometryDescription \<Rightarrow>
          textureOptionsLoop cat t rest
            (tys @ [textureType description], fmts @ [textureFormat description],
             lbls @ [gd_name geometryDescription]))"

definition createMultiRenderTargetTexture ::
  "'fg collaborators \<Rightarrow> FrameGraphGeometryRendererTask \<Rightarrow> 'fg
    \<Rightarrow> error + (FrameGraphTextureHandle \<times> 'fg)" where
  "createMultiRenderTargetTexture env t fg =
     (case textureOptionsLoop (GeometryTextureDescriptions env) t (textureDescriptions t) ([], [], []) of
        Inl e \<Rightarrow> Inl e
      | Inr (tys, fmts, lbls) \<Rightarrow>
          Inr (createRenderTargetTexture env (name t)
                 \<lparr>opt_size = task_size t, opt_sizeIsPercentage = sizeIsPercentage t,
                  options = \<lparr>createMipMaps = False, generateDepthBuffer = False,
                             textureCount = length (textureDescriptions t),
                             opt_samples = samples t,
                             types = tys, formats = fmts, labels = lbls\<rparr>\<rparr> fg))"

definition checkDepthTextureCompatibility ::
  "'fg collaborators \<Rightarrow> FrameGraphGeometryRendererTask \<Rightarrow> 'fg \<Rightarrow> error + bool" where
  "checkDepthTextureCompatibility env t fg =
     (case depthTexture t of
        None \<Rightarrow> Inr False
      | Some dt \<Rightarrow>
          (case getTextureHandle env dt fg of
             Inl e \<Rightarrow> Inl e
           | Inr depthTextureHandle \<Rightarrow>
               if depthTextureHandle = backbufferDepthStencilTextureHandle env
               then Inl (Error (taskPrefix t
                          @ '': the depth/stencil back buffer is not allowed as a depth texture''))
               else (case getTextureDescription env depthTextureHandle fg of
                       Inl e \<Rightarrow> Inl e
                     | Inr depthTextureDescription \<Rightarrow>
                         if opt_samples (options depthTextureDescription) \<noteq> samples t
                         then Inl (Error (taskPrefix t
                                @ '': the depth texture and the output texture must have the same number of samples''))
                         else Inr True)))"

text \<open>\<open>_registerForRenderPassId\<close> writes \<open>configuration.defines[defineIndex] = i\<close> for
  every plane; what it wrote before a throw stays written.\<close>

fun registerLoop ::
  "GeometryTextureDescription list \<Rightarrow> IFrameGraphGeometryRendererTextureDescription list \<Rightarrow> nat
    \<Rightarrow> (nat \<Rightarrow> nat option) \<Rightarrow> error option \<times> (nat \<Rightarrow> nat option)" where
  "registerLoop cat [] i defines = (None, defines)"
| "registerLoop cat (description # rest) i defines =
     (case geometryDescriptionOf cat description of
        None \<Rightarrow> (Some (TypeError ''Cannot read properties of undefined (reading 'defineIndex')''),
                 defines)
      | Some geometryDescription \<Rightarrow>
          registerLoop cat rest (Suc i) (defines(gd_defineIndex geometryDescription \<mapsto> i)))"

definition registerForRenderPassId ::
  "'fg collaborators \<Rightarrow> FrameGraphGeometryRendererTask \<Rightarrow> nat \<Rightarrow> (nat \<Rightarrow> nat \<Rightarrow> nat option)
    \<Rightarrow> error option \<times> (nat \<Rightarrow> nat \<Rightarrow> nat option)" where
  "registerForRenderPassId env t renderPassId cfgs =
     (case registerLoop (GeometryTextureDescriptions env) (textureDescriptions t) 0 (cfgs renderPassId) of
        (thrown, defines) \<Rightarrow> (thrown, cfgs(renderPassId := defines)))"

text \<open>The closure given to \<open>pass.setExecuteFunc\<close>. It captures \<open>objectList\<close> and
  \<open>depthEnabled\<close> as recorded, and reads \<open>this\<close> (the flags and the layouts) when it
  runs.\<close>

definition executeClosure ::
  "FrameGraphObjectList \<Rightarrow> bool \<Rightarrow> FrameGraphGeometryRendererTask \<Rightarrow> contextCall list" where
  "executeClosure objList depthEnabled t =
     [SetRenderList (meshes objList),
      SetParticleSystemList (particleSystems objList),
      IncrementRenderId,
      SetDepthStates (depthTest t \<and> depthEnabled) (depthWrite t \<and> depthEnabled)]
     @ map (\<lambda>(clearType, layout). ClearColorAttachments (js_index clearColors clearType) layout)
         (clearAttachmentsLayout t)
     @ [BindAttachments (allAttachmentsLayout t), Render]"

text \<open>The ten output names, in the order of the \<open>setOutputTexture\<close> calls.\<close>

definition outputNames :: "string list" where
  "outputNames = [''geometryViewDepth'', ''geometryScreenDepth'', ''geometryViewNormal'',
     ''geometryWorldNormal'', ''geometryLocalPosition'', ''geometryWorldPosition'',
     ''geometryAlbedo'', ''geometryReflectivity'', ''geometryVelocity'',
     ''geometryLinearVelocity'']"

text \<open>\<open>recordFrameGraph\<close>. The result is what the call returns or throws, together with
  the state as the call leaves it (at a throw: as it was when the error was thrown). On
  success the render pass is returned as its setters left it.\<close>

definition recordFrameGraph ::
  "'fg collaborators \<Rightarrow> 'fg state \<Rightarrow> (error + RenderPass) \<times> 'fg state" where
  "recordFrameGraph env s =
    (if textureDescriptions (this s) = [] \<or> objectList (this s) = None
     then (Inl (Error (taskPrefix (this s)
             @ '': object list and at least one geometry texture description must be provided'')), s)
     else
     case createMultiRenderTargetTexture env (this s) (frameGraph s) of
       Inl e \<Rightarrow> (Inl e, s)
     | Inr (outputTextureHandle, fg1) \<Rightarrow>
     let s1 = s\<lparr>frameGraph := fg1\<rparr> in
     case checkDepthTextureCompatibility env (this s1) fg1 of
       Inl e \<Rightarrow> (Inl e, s1)
     | Inr depthEnabled \<Rightarrow>
     case buildClearAttachmentsLayout env (this s1) of
       Inl e \<Rightarrow> (Inl e, s1)
     | Inr t2 \<Rightarrow>
     let s2 = s1\<lparr>this := t2\<rparr> in
     case registerForRenderPassId env t2 (rtt_renderPassId t2) (configurations s2) of
       (Some e, cfgs) \<Rightarrow> (Inl e, s2\<lparr>configurations := cfgs\<rparr>)
     | (None, cfgs) \<Rightarrow>
     let s3 = s2\<lparr>configurations := cfgs\<rparr> in
     case getTextureDescription env outputTextureHandle fg1 of
       Inl e \<Rightarrow> (Inl e, s3)
     | Inr outputTextureDescription \<Rightarrow>
     let t4 = t2\<lparr>rtt_size := opt_size outputTextureDescription\<rparr>;
         s4 = s3\<lparr>this := t4\<rparr> in
     case getObjectList env (the (objectList t4)) fg1 of
       Inl e \<Rightarrow> (Inl e, s4)
     | Inr objList \<Rightarrow>
     let fg5 = addRenderPass env (name t4) fg1;
         s5 = s4\<lparr>frameGraph := fg5\<rparr>;
         pass1 = setRenderTarget outputTextureHandle (newRenderPass (name t4));
         pass2 = fold (\<lambda>n. setOutputTexture outputTextureHandle 0 n) outputNames pass1 in
     case (case depthTexture t4 of
             None \<Rightarrow> Inr pass2
           | Some dt \<Rightarrow> (case getTextureHandle env dt fg5 of
                          Inl e \<Rightarrow> Inl e
                        | Inr h \<Rightarrow> Inr (setRenderTargetDepth h pass2))) of
       Inl e \<Rightarrow> (Inl e, s5)
     | Inr pass3 \<Rightarrow> (Inr (setExecuteFunc (executeClosure objList depthEnabled) pass3), s5))"

section \<open>Node render graph blocks\<close>

subsection \<open>Connection points\<close>

text \<open>The names of \<open>NodeRenderGraphBlockConnectionPointTypes\<close> that the blocks use; the
  enumeration itself is declared in a file not covered here.\<close>

datatype NodeRenderGraphBlockConnectionPointTypes =
  Texture | TextureAllButBackBuffer | TextureAll | BasedOnInput | ObjectList | Camera

text \<open>Modelled from the spec: the connection point class is not among the files covered
  here. A point has a name, the kind it was registered with, the kinds it accepts, the
  point it is connected to (or none) and its resolved value (or none).\<close>

datatype NodeRenderGraphConnectionPoint = ConnectionPoint
  (cp_name: string)
  (cp_type: NodeRenderGraphBlockConnectionPointTypes)
  (cp_isOptional: bool)
  (cp_acceptedTypes: "NodeRenderGraphBlockConnectionPointTypes list")
  (connectedPoint: "NodeRenderGraphConnectionPoint option")
  (cp_value: "FrameGraphTextureId option")

text \<open>Modelled from the spec: a newly registered point accepts no further kinds, is
  connected to nothing and has no value.\<close>

definition newConnectionPoint ::
  "string \<Rightarrow> NodeRenderGraphBlockConnectionPointTypes \<Rightarrow> bool \<Rightarrow> NodeRenderGraphConnectionPoint" where
  "newConnectionPoint n ty opt = ConnectionPoint n ty opt [] None None"

text \<open>Modelled from the spec: \<open>isConnected\<close> of a connection point, for an input: it has
  a connected point.\<close>

definition isConnected :: "NodeRenderGraphConnectionPoint \<Rightarrow> bool" where
  "isConnected p = (connectedPoint p \<noteq> None)"

text \<open>Modelled from the spec: \<open>addAcceptedConnectionPointTypes\<close> adds a kind to the kinds
  that the point accepts.\<close>

definition addAcceptedConnectionPointTypes ::
  "NodeRenderGraphBlockConnectionPointTypes \<Rightarrow> NodeRenderGraphConnectionPoint
    \<Rightarrow> NodeRenderGraphConnectionPoint" where
  "addAcceptedConnectionPointTypes ty p =
     ConnectionPoint (cp_name p) (cp_type p) (cp_isOptional p) (cp_acceptedTypes p @ [ty])
       (connectedPoint p) (cp_value p)"

text \<open>Modelled from the spec: connecting a point \<open>q\<close> to an input \<open>p\<close> stores \<open>q\<close> as the
  connected point of \<open>p\<close>.\<close>

definition connect ::
  "NodeRenderGraphConnectionPoint \<Rightarrow> NodeRenderGraphConnectionPoint \<Rightarrow> NodeRenderGraphConnectionPoint" where
  "connect q p =
     ConnectionPoint (cp_name p) (cp_type p) (cp_isOptional p) (cp_acceptedTypes p) (Some q) (cp_value p)"

subsection \<open>The bloom post process block\<close>

record NodeRenderGraphBloomPostProcessBlock =
  bloom_name :: string
  bloom_inputs :: "NodeRenderGraphConnectionPoint list"
  bloom_outputs :: "NodeRenderGraphConnectionPoint list"

text \<open>Modelled from the spec: \<open>registerInput\<close> and \<open>registerOutput\<close> of the block base
  class add a point to the ordered inputs, or outputs, of the block.\<close>

definition registerInput ::
  "string \<Rightarrow> NodeRenderGraphBlockConnectionPointTypes \<Rightarrow> bool
    \<Rightarrow> NodeRenderGraphBloomPostProcessBlock \<Rightarrow> NodeRenderGraphBloomPostProcessBlock" where
  "registerInput n ty opt blk = blk\<lparr>bloom_inputs := bloom_inputs blk @ [newConnectionPoint n ty opt]\<rparr>"

definition registerOutput ::
  "string \<Rightarrow> NodeRenderGraphBlockConnectionPointTypes
    \<Rightarrow> NodeRenderGraphBloomPostProcessBlock \<Rightarrow> NodeRenderGraphBloomPostProcessBlock" where
  "registerOutput n ty blk = blk\<lparr>bloom_outputs := bloom_outputs blk @ [newConnectionPoint n ty False]\<rparr>"

text \<open>The getters \<open>source\<close> (\<open>_inputs[0]\<close>), \<open>destination\<close> (\<open>_inputs[1]\<close>) and
  \<open>output\<close> (\<open>_outputs[0]\<close>).\<close>

definition source :: "NodeRenderGraphBloomPostProcessBlock \<Rightarrow> NodeRenderGraphConnectionPoint option" where
  "source blk = js_index (bloom_inputs blk) 0"

definition destination :: "NodeRenderGraphBloomPostProcessBlock \<Rightarrow> NodeRenderGraphConnectionPoint option" where
  "destination blk = js_index (bloom_inputs blk) 1"

definition bloom_output :: "NodeRenderGraphBloomPostProcessBlock \<Rightarrow> NodeRenderGraphConnectionPoint option" where
  "bloom_output blk = js_index (bloom_outputs blk) 0"

text \<open>The part of the constructor that builds the connection points: the three
  registrations, then the accepted kinds of \<open>source\<close> and \<open>destination\<close>.\<close>

definition NodeRenderGraphBloomPostProcessBlock_new :: "string \<Rightarrow> NodeRenderGraphBloomPostProcessBlock" where
  "NodeRenderGraphBloomPostProcessBlock_new n =
     (let b0 = \<lparr>bloom_name = n, bloom_inputs = [], bloom_outputs = []\<rparr>;
          b1 = registerInput ''source'' Texture False b0;
          b2 = registerInput ''destination'' Texture True b1;
          b3 = registerOutput ''output'' BasedOnInput b2;
          b4 = b3\<lparr>bloom_inputs :=
                 (bloom_inputs b3)[0 := addAcceptedConnectionPointTypes TextureAllButBackBuffer (bloom_inputs b3 ! 0)]\<rparr>;
          b5 = b4\<lparr>bloom_inputs :=
                 (bloom_inputs b4)[1 := addAcceptedConnectionPointTypes TextureAll (bloom_inputs b4 ! 1)]\<rparr>
      in b5)"

text \<open>The closure stored in \<open>output._typeConnectionSource\<close>, applied to the block as it is
  when the closure runs:
  \<open>() => this.destination.isConnected ? this.destination : this.source\<close>.
  Reading \<open>isConnected\<close> of a missing destination throws; a missing source is returned
  as \<open>undefined\<close>.\<close>

definition typeConnectionSource ::
  "NodeRenderGraphBloomPostProcessBlock \<Rightarrow> error + NodeRenderGraphConnectionPoint option" where
  "typeConnectionSource blk =
     (case destination blk of
        None \<Rightarrow> Inl (TypeError ''Cannot read properties of undefined (reading 'isConnected')'')
      | Some d \<Rightarrow> if isConnected d then Inr (Some d) else Inr (source blk))"

text \<open>Modelled from the spec: the kind getter of a connection point is not among the
  files covered here. The kind of a BasedOnInput output is the kind of the point that its
  resolver returns; \<open>kind\<close> is whatever gives the kind of an input point.\<close>

definition outputKind ::
  "(NodeRenderGraphConnectionPoint \<Rightarrow> 'k) \<Rightarrow> NodeRenderGraphBloomPostProcessBlock \<Rightarrow> error + 'k option" where
  "outputKind kind blk =
     (case typeConnectionSource blk of Inl e \<Rightarrow> Inl e | Inr p \<Rightarrow> Inr (map_option kind p))"

text \<open>Modelled from the spec: connecting a point to the input at an index of the block.\<close>

definition connectInput ::
  "nat \<Rightarrow> NodeRenderGraphConnectionPoint \<Rightarrow> NodeRenderGraphBloomPostProcessBlock
    \<Rightarrow> NodeRenderGraphBloomPostProcessBlock" where
  "connectInput i q blk =
     (if i < length (bloom_inputs blk)
      then blk\<lparr>bloom_inputs := (bloom_inputs blk)[i := connect q (bloom_inputs blk ! i)]\<rparr>
      else blk)"

subsection \<open>The teleport receiver (NodeRenderGraphTeleportOutBlock)\<close>

text \<open>Blocks refer to each other: they live in a store and are named by their
  address.\<close>

type_synonym ref = nat

datatype jsvalue = JNull | JUndefined | JNumber int | JString string

text \<open>Modelled from the spec: the teleport source block (NodeRenderGraphTeleportInBlock)
  is not among the files covered here. It has the identity and name of every block, and
  the receivers attached to it.\<close>

record NodeRenderGraphTeleportInBlock =
  in_uniqueId :: int
  in_name :: string
  endpoints :: "ref list"

record NodeRenderGraphTeleportOutBlock =
  uniqueId :: int
  out_name :: string
  isTeleportOut :: bool
  out_outputs :: "NodeRenderGraphConnectionPoint list"
  entryPoint :: "ref option"
  tempEntryPointUniqueId :: jsvalue

datatype block =
  TeleportIn NodeRenderGraphTeleportInBlock
| TeleportOut NodeRenderGraphTeleportOutBlock

type_synonym store = "block list"

definition deref :: "store \<Rightarrow> ref \<Rightarrow> block option" where
  "deref h p = js_index h p"

text \<open>The constructor: the field initialisers, \<open>_isTeleportOut = true\<close> and the
  registration of the output. The unique id comes from the base class.\<close>

definition NodeRenderGraphTeleportOutBlock_new :: "string \<Rightarrow> int \<Rightarrow> NodeRenderGraphTeleportOutBlock" where
  "NodeRenderGraphTeleportOutBlock_new n uid =
     \<lparr>uniqueId = uid, out_name = n, isTeleportOut = True,
      out_outputs = [newConnectionPoint ''output'' BasedOnInput False],
      entryPoint = None, tempEntryPointUniqueId = JNull\<rparr>"

definition out_output :: "NodeRenderGraphTeleportOutBlock \<Rightarrow> NodeRenderGraphConnectionPoint option" where
  "out_output blk = js_index (out_outputs blk) 0"

text \<open>\<open>_buildBlock\<close> does nothing.\<close>

definition buildBlock :: "NodeRenderGraphTeleportOutBlock \<Rightarrow> 'st \<times> store \<Rightarrow> 'st \<times> store" where
  "buildBlock blk sh = sh"

text \<open>\<open>_customBuildStep\<close>: \<open>build\<close> is the build method of the entry point, which is not
  among the files covered here; it may change the build state and the store, or throw.\<close>

definition customBuildStep ::
  "(ref \<Rightarrow> 'st \<times> store \<Rightarrow> error + 'st \<times> store) \<Rightarrow> NodeRenderGraphTeleportOutBlock
    \<Rightarrow> 'st \<times> store \<Rightarrow> error + 'st \<times> store" where
  "customBuildStep build blk sh =
     (case entryPoint blk of
        None \<Rightarrow> Inr sh
      | Some e \<Rightarrow> build e sh)"

text \<open>\<open>uniqueId\<close> of the block at an address (\<open>undefined\<close> when there is none).\<close>

definition uniqueIdOf :: "store \<Rightarrow> ref \<Rightarrow> int option" where
  "uniqueIdOf h p =
     (case deref h p of
        None \<Rightarrow> None
      | Some (TeleportIn i) \<Rightarrow> Some (in_uniqueId i)
      | Some (TeleportOut blk) \<Rightarrow> Some (uniqueId blk))"

text \<open>\<open>serialize\<close>: the object of the base class (a parameter), with
  \<open>entryPoint = this.entryPoint?.uniqueId ?? ""\<close>.\<close>

definition serialize ::
  "(NodeRenderGraphTeleportOutBlock \<Rightarrow> string \<Rightarrow> jsvalue option) \<Rightarrow> store
    \<Rightarrow> NodeRenderGraphTeleportOutBlock \<Rightarrow> string \<Rightarrow> jsvalue option" where
  "serialize superSerialize h blk =
     (superSerialize blk)(''entryPoint'' \<mapsto>
        (case entryPoint blk of
           None \<Rightarrow> JString []
         | Some e \<Rightarrow> (case uniqueIdOf h e of None \<Rightarrow> JString [] | Some uid \<Rightarrow> JNumber uid)))"

text \<open>\<open>_deserialize\<close>: the base class first (a parameter), then
  \<open>_tempEntryPointUniqueId = serializationObject.entryPoint\<close>.\<close>

definition deserialize ::
  "((string \<Rightarrow> jsvalue option) \<Rightarrow> NodeRenderGraphTeleportOutBlock \<Rightarrow> NodeRenderGraphTeleportOutBlock)
    \<Rightarrow> (string \<Rightarrow> jsvalue option) \<Rightarrow> NodeRenderGraphTeleportOutBlock
    \<Rightarrow> NodeRenderGraphTeleportOutBlock" where
  "deserialize superDeserialize serializationObject blk =
     (superDeserialize serializationObject blk)
       \<lparr>tempEntryPointUniqueId :=
          (case serializationObject ''entryPoint'' of None \<Rightarrow> JUndefined | Some v \<Rightarrow> v)\<rparr>"

text \<open>Modelled from the spec: \<open>attachToEndpoint\<close> of the teleport source is not among
  the files covered here. Attaching stores the direct references: the receiver among the
  endpoints of the source, the source as the entry point of the receiver.\<close>

definition attachToEndpoint :: "ref \<Rightarrow> ref \<Rightarrow> store \<Rightarrow> store" where
  "attachToEndpoint e endpoint h =
     (case (deref h e, deref h endpoint) of
        (Some (TeleportIn i), Some (TeleportOut blk)) \<Rightarrow>
          (h[e := TeleportIn (i\<lparr>endpoints := endpoints i @ [endpoint]\<rparr>)])
            [endpoint := TeleportOut (blk\<lparr>entryPoint := Some e\<rparr>)]
      | _ \<Rightarrow> h)"

text \<open>\<open>clone\<close>: \<open>super.clone()\<close> is a parameter; it allocates the copy in the store and
  returns its address.\<close>

definition clone ::
  "(NodeRenderGraphTeleportOutBlock \<Rightarrow> store \<Rightarrow> ref \<times> store) \<Rightarrow> NodeRenderGraphTeleportOutBlock
    \<Rightarrow> store \<Rightarrow> ref \<times> store" where
  "clone superClone blk h =
     (case superClone blk h of
        (c, h1) \<Rightarrow>
          (case entryPoint blk of
             None \<Rightarrow> (c, h1)
           | Some e \<Rightarrow> (c, attachToEndpoint e c h1)))"

section \<open>Derived notions and examples\<close>

text \<open>The clear kind of a requested plane: the \<open>clearType\<close> of the catalogue entry that
  the lookup of the task finds for it.\<close>

definition planeClearType ::
  "GeometryTextureDescription list \<Rightarrow> IFrameGraphGeometryRendererTextureDescription \<Rightarrow> TextureClearType option" where
  "planeClearType cat description = map_option gd_clearType (geometryDescriptionOf cat description)"

text \<open>The boolean layout of a clear kind over the requested planes: true at the planes of
  that kind.\<close>

definition planeLayout ::
  "GeometryTextureDescription list \<Rightarrow> IFrameGraphGeometryRendererTextureDescription list \<Rightarrow> TextureClearType \<Rightarrow> bool list" where
  "planeLayout cat ds k = map (\<lambda>d. planeClearType cat d = Some k) ds"

text \<open>The invariant of the loop of \<open>_buildClearAttachmentsLayout\<close> after the planes
  \<open>pre\<close>: the keys of the map are distinct and are the clear kinds met so far, every
  layout has one entry per plane met so far, true at the planes of its kind, and
  \<open>allAttachmentsLayout\<close> is true at every plane met so far.\<close>

definition layoutInv ::
  "GeometryTextureDescription list \<Rightarrow> IFrameGraphGeometryRendererTextureDescription list
    \<Rightarrow> (TextureClearType \<times> bool list) list \<times> bool list \<Rightarrow> bool" where
  "layoutInv cat pre st \<longleftrightarrow>
     distinct (map fst (fst st)) \<and>
     fst ` set (fst st) = {k. \<exists>d\<in>set pre. planeClearType cat d = Some k} \<and>
     (\<forall>(k, layout)\<in>set (fst st). length layout = length pre \<and>
        (\<forall>j<length pre. layout ! j = (planeClearType cat (pre ! j) = Some k))) \<and>
     snd st = replicate (length pre) True"

text \<open>The calls of the execute closure that set the depth states.\<close>

fun isSetDepthStates :: "contextCall \<Rightarrow> bool" where
  "isSetDepthStates (SetDepthStates dt dw) = True"
| "isSetDepthStates c = False"

subsection \<open>Concrete inputs\<close>

text \<open>A catalogue of four planes with the three clear kinds, three requested planes, and a
  description of a single texture with a given sample count.\<close>

definition exampleCatalogue :: "GeometryTextureDescription list" where
  "exampleCatalogue =
     [\<lparr>gd_type = 5, gd_name = ''ViewDepth'', gd_clearType = 2, gd_defineIndex = 0\<rparr>,
      \<lparr>gd_type = 6, gd_name = ''ViewNormal'', gd_clearType = 0, gd_defineIndex = 1\<rparr>,
      \<lparr>gd_type = 10, gd_name = ''ScreenDepth'', gd_clearType = 1, gd_defineIndex = 2\<rparr>,
      \<lparr>gd_type = 12, gd_name = ''Albedo'', gd_clearType = 0, gd_defineIndex = 3\<rparr>]"

definition examplePlanes :: "IFrameGraphGeometryRendererTextureDescription list" where
  "examplePlanes =
     [\<lparr>type = 6, textureType = 2, textureFormat = 5\<rparr>,
      \<lparr>type = 5, textureType = 1, textureFormat = 6\<rparr>,
      \<lparr>type = 12, textureType = 0, textureFormat = 5\<rparr>]"

definition exampleOptions :: "int \<Rightarrow> FrameGraphTextureCreationOptions" where
  "exampleOptions n =
     \<lparr>opt_size = (100, 100), opt_sizeIsPercentage = True,
      options = \<lparr>createMipMaps = False, generateDepthBuffer = False, textureCount = 1,
                 opt_samples = n, types = [0], formats = [13], labels = [''depth'']\<rparr>\<rparr>"

text \<open>A small frame graph: the texture table (handles 0 and 1 are the back buffer's
  colour and depth/stencil, the table starts at handle 2) and the names of the passes.\<close>

definition exampleEnv ::
  "(FrameGraphTextureCreationOptions list \<times> string list) collaborators" where
  "exampleEnv =
     \<lparr>GeometryTextureDescriptions = exampleCatalogue,
      backbufferDepthStencilTextureHandle = 1,
      buildTextureLayout = map (\<lambda>on. if on then 1 else 0),
      createRenderTargetTexture = (\<lambda>n opts fg. (length (fst fg) + 2, (fst fg @ [opts], snd fg))),
      getTextureHandle = (\<lambda>tid fg. case tid of
          Handle h \<Rightarrow> Inr h
        | OutputReference tn out \<Rightarrow> Inl (Error ''unknown output'')),
      getTextureDescription = (\<lambda>h fg.
          if 2 \<le> h \<and> h - 2 < length (fst fg) then Inr (fst fg ! (h - 2))
          else Inl (Error ''unknown handle'')),
      getObjectList = (\<lambda>i fg. Inr \<lparr>meshes = [7, 8], particleSystems = []\<rparr>),
      addRenderPass = (\<lambda>n fg. (fst fg, snd fg @ [n]))\<rparr>"

text \<open>A task named \<open>geometry\<close> with one sample, and the state in which it is recorded:
  the frame graph holds a texture of four samples at handle 2 and a texture of one sample at
  handle 3.\<close>

definition exampleTask ::
  "FrameGraphTextureId option \<Rightarrow> IFrameGraphGeometryRendererTextureDescription list
    \<Rightarrow> FrameGraphGeometryRendererTask" where
  "exampleTask dt ds =
     \<lparr>name = ''geometry'', depthTexture = dt, objectList = Some 0, depthTest = True,
      depthWrite = True, task_size = (100, 100), sizeIsPercentage = True, samples = 1,
      textureDescriptions = ds, rtt_renderPassId = 3, rtt_size = (1, 1),
      clearAttachmentsLayout = [], allAttachmentsLayout = []\<rparr>"

definition exampleState ::
  "FrameGraphTextureId option \<Rightarrow> IFrameGraphGeometryRendererTextureDescription list
    \<Rightarrow> (FrameGraphTextureCreationOptions list \<times> string list) state" where
  "exampleState dt ds =
     \<lparr>this = exampleTask dt ds,
      frameGraph = ([exampleOptions 4, exampleOptions 1], []),
      configurations = (\<lambda>i. Map.empty)\<rparr>"

text \<open>A connection point of another block, a teleport source with one receiver, and the
  store that holds the two.\<close>

definition examplePoint :: "string \<Rightarrow> NodeRenderGraphConnectionPoint" where
  "examplePoint n = ConnectionPoint n Texture False [] None (Some (Handle 2))"

definition exampleSource :: NodeRenderGraphTeleportInBlock where
  "exampleSource = \<lparr>in_uniqueId = 41, in_name = ''source'', endpoints = [1]\<rparr>"

definition exampleReceiver :: "ref option \<Rightarrow> NodeRenderGraphTeleportOutBlock" where
  "exampleReceiver e = (NodeRenderGraphTeleportOutBlock_new ''> source'' 42)\<lparr>entryPoint := e\<rparr>"

definition exampleStore :: store where
  "exampleStore = [TeleportIn exampleSource, TeleportOut (exampleReceiver (Some 0))]"

text \<open>A base-class clone for the examples: a newly constructed receiver at the next free
  address of the store.\<close>

definition exampleSuperClone :: "NodeRenderGraphTeleportOutBlock \<Rightarrow> store \<Rightarrow> ref \<times> store" where
  "exampleSuperClone blk h =
     (length h, h @ [TeleportOut (NodeRenderGraphTeleportOutBlock_new (out_name blk) 43)])"

text \<open>A serialization of the base class that keeps the name and the id.\<close>

definition exampleSuperSerialize :: "NodeRenderGraphTeleportOutBlock \<Rightarrow> string \<Rightarrow> jsvalue option" where
  "exampleSuperSerialize blk = [''name'' \<mapsto> JString (out_name blk), ''id'' \<mapsto> JNumber (uniqueId blk)]"

definition exampleSuperDeserialize ::
  "(string \<Rightarrow> jsvalue option) \<Rightarrow> NodeRenderGraphTeleportOutBlock \<Rightarrow> NodeRenderGraphTeleportOutBlock" where
  "exampleSuperDeserialize obj blk =
     (case obj ''name'' of Some (JString n) \<Rightarrow> blk\<lparr>out_name := n\<rparr> | _ \<Rightarrow> blk)"

section \<open>Properties of the geometry renderer task\<close>

subsection \<open>Lookups\<close>

lemma findIndex_None: "findIndex P xs = None \<longleftrightarrow> (\<forall>x\<in>set xs. \<not> P x)"
  by (induction xs) (auto split: option.splits)

lemma findIndex_bound: "findIndex P xs = Some i \<Longrightarrow> i < length xs \<and> P (xs ! i)"
  by (induction xs arbitrary: i) (auto split: option.splits if_splits)

lemma geometryDescriptionOf_known:
  assumes "type d \<in> gd_type ` set cat"
  shows "\<exists>gd. geometryDescriptionOf cat d = Some gd"
proof (cases "findIndex (\<lambda>f. gd_type f = type d) cat")
  case None
  with assms show ?thesis by (auto simp: findIndex_None)
next
  case (Some i)
  with findIndex_bound[OF Some] show ?thesis
    by (simp add: geometryDescriptionOf_def js_index_def)
qed

lemma Map_set_fresh: "k \<notin> fst ` set m \<Longrightarrow> Map_set k v m = m @ [(k, v)]"
  by (induction m) auto

lemma Map_get_None: "Map_get m k = None \<longleftrightarrow> k \<notin> fst ` set m"
  by (simp add: Map_get_def map_of_eq_None_iff)

lemma map_fst_push: "map fst (map (\<lambda>(k, layout). (k, f k layout)) m) = map fst m"
  by (induction m) auto

subsection \<open>The loop of the clear layouts\<close>

lemma clearLayoutStep_inv:
  assumes "clearLayoutStep cat (length pre) d st = Inr st'" and "layoutInv cat pre st"
  shows "layoutInv cat (pre @ [d]) st'"
proof -
  obtain m al where st: "st = (m, al)" by (cases st)
  from assms(1) obtain gd where gd: "geometryDescriptionOf cat d = Some gd"
    by (auto simp: clearLayoutStep_def split: option.splits)
  define ct where "ct = gd_clearType gd"
  have pct: "planeClearType cat d = Some ct" using gd by (simp add: planeClearType_def ct_def)
  define m1 where "m1 = (case Map_get m ct of None \<Rightarrow> Map_set ct (replicate (length pre) False) m | Some layout \<Rightarrow> m)"
  define m2 where "m2 = map (\<lambda>(clearType, layout). (clearType, layout @ [clearType = ct])) m1"
  have "clearLayoutStep cat (length pre) d st = Inr (m2, al @ [True])"
    unfolding m2_def m1_def ct_def using gd by (simp add: clearLayoutStep_def st Let_def)
  with assms(1) have st': "st' = (m2, al @ [True])" by simp
  from assms(2) have d: "distinct (map fst m)"
    and keys: "fst ` set m = {k. \<exists>d\<in>set pre. planeClearType cat d = Some k}"
    and lay: "\<forall>(k, layout)\<in>set m. length layout = length pre \<and>
        (\<forall>j<length pre. layout ! j = (planeClearType cat (pre ! j) = Some k))"
    and al: "al = replicate (length pre) True"
    by (simp_all add: layoutInv_def st)
  have m1: "m1 = (if ct \<in> fst ` set m then m else m @ [(ct, replicate (length pre) False)])"
    unfolding m1_def using Map_get_None[of m ct] Map_set_fresh[of ct m] by (auto split: option.splits)
  have d1: "distinct (map fst m1)" using d by (simp add: m1)
  have keys1: "fst ` set m1 = insert ct (fst ` set m)" by (auto simp: m1)
  have lay1: "\<forall>(k, layout)\<in>set m1. length layout = length pre \<and>
        (\<forall>j<length pre. layout ! j = (planeClearType cat (pre ! j) = Some k))"
  proof (cases "ct \<in> fst ` set m")
    case True then show ?thesis using lay by (simp add: m1)
  next
    case False
    then have "\<forall>d\<in>set pre. planeClearType cat d \<noteq> Some ct"
      using keys by auto
    then have "\<forall>j<length pre. planeClearType cat (pre ! j) \<noteq> Some ct"
      by simp
    then show ?thesis using lay False by (auto simp: m1)
  qed
  have mapfst: "map fst m2 = map fst m1" unfolding m2_def by (rule map_fst_push)
  have "layoutInv cat (pre @ [d]) (m2, al @ [True])"
    unfolding layoutInv_def fst_conv snd_conv
  proof (intro conjI)
    show "distinct (map fst m2)" using d1 mapfst by simp
    have "fst ` set m2 = fst ` set m1" using mapfst by (metis set_map)
    then show "fst ` set m2 = {k. \<exists>d\<in>set (pre @ [d]). planeClearType cat d = Some k}"
      using keys1 keys pct by auto
    show "\<forall>(k, layout)\<in>set m2. length layout = length (pre @ [d]) \<and>
        (\<forall>j<length (pre @ [d]). layout ! j = (planeClearType cat ((pre @ [d]) ! j) = Some k))"
      using lay1 pct unfolding m2_def by (auto simp: nth_append less_Suc_eq)
    show "al @ [True] = replicate (length (pre @ [d])) True"
      using al by (simp add: replicate_append_same)
  qed
  with st' show ?thesis by simp
qed

lemma clearLayoutLoop_inv:
  assumes "clearLayoutLoop cat ds (length pre) st = Inr st'" and "layoutInv cat pre st"
  shows "layoutInv cat (pre @ ds) st'"
  using assms
proof (induction ds arbitrary: pre st)
  case Nil
  then show ?case by simp
next
  case (Cons d ds)
  from Cons.prems(1) obtain st1 where
    s: "clearLayoutStep cat (length pre) d st = Inr st1"
    and l: "clearLayoutLoop cat ds (length (pre @ [d])) st1 = Inr st'"
    by (auto split: sum.splits)
  from clearLayoutStep_inv[OF s Cons.prems(2)] have "layoutInv cat (pre @ [d]) st1" .
  from Cons.IH[OF l this] show ?case by simp
qed

lemma clearLayoutLoop_total:
  assumes "\<forall>d\<in>set ds. type d \<in> gd_type ` set cat"
  shows "\<exists>st'. clearLayoutLoop cat ds i st = Inr st'"
  using assms
proof (induction ds arbitrary: i st)
  case Nil
  then show ?case by simp
next
  case (Cons d ds)
  then obtain gd where "geometryDescriptionOf cat d = Some gd"
    using geometryDescriptionOf_known[of d cat] by auto
  then obtain st1 where "clearLayoutStep cat i d st = Inr st1"
    by (simp add: clearLayoutStep_def Let_def)
  with Cons show ?case by simp
qed

lemma layoutInv_init: "layoutInv cat [] ([], [])"
  by (simp add: layoutInv_def)

lemma clearLayoutLoop_result:
  assumes "clearLayoutLoop cat ds 0 ([], []) = Inr (m, al)"
  shows "distinct (map fst m)"
    and "fst ` set m = {k. \<exists>d\<in>set ds. planeClearType cat d = Some k}"
    and "\<forall>(k, layout)\<in>set m. length layout = length ds \<and>
           (\<forall>i<length ds. layout ! i = (planeClearType cat (ds ! i) = Some k))"
    and "al = replicate (length ds) True"
  using clearLayoutLoop_inv[of cat ds "[]" "([], [])" "(m, al)"] assms layoutInv_init[of cat]
  by (simp_all add: layoutInv_def)

lemma clearLayoutLoop_planeLayout:
  assumes "clearLayoutLoop cat ds 0 ([], []) = Inr (m, al)"
  shows "m = map (\<lambda>k. (k, planeLayout cat ds k)) (map fst m)"
proof -
  have "p = (fst p, planeLayout cat ds (fst p))" if "p \<in> set m" for p
  proof -
    obtain k layout where p: "p = (k, layout)" by (cases p)
    with that clearLayoutLoop_result(3)[OF assms] have
      "length layout = length ds" "\<forall>i<length ds. layout ! i = (planeClearType cat (ds ! i) = Some k)"
      by auto
    then have "layout = planeLayout cat ds k"
      by (intro nth_equalityI) (simp_all add: planeLayout_def)
    with p show ?thesis by simp
  qed
  then show ?thesis by (simp add: map_idI comp_def)
qed

subsection \<open>The examples, evaluated\<close>

lemma examplePlanes_known: "\<forall>d\<in>set examplePlanes. type d \<in> gd_type ` set exampleCatalogue"
  by (simp add: examplePlanes_def exampleCatalogue_def)

lemma example_known:
  "\<forall>d\<in>set (textureDescriptions (this (exampleState dt examplePlanes))).
      type d \<in> gd_type ` set (GeometryTextureDescriptions exampleEnv)"
  using examplePlanes_known by (simp add: exampleState_def exampleTask_def exampleEnv_def)

lemma clearLayout_example:
  "clearLayoutLoop exampleCatalogue examplePlanes 0 ([], []) =
     Inr ([(0, [True, False, True]), (2, [False, True, False])], [True, True, True])"
  by (simp add: exampleCatalogue_def examplePlanes_def clearLayoutStep_def geometryDescriptionOf_def
      js_index_def Map_get_def Let_def)

lemma example_create:
  "createMultiRenderTargetTexture exampleEnv (exampleTask dt examplePlanes)
      ([exampleOptions 4, exampleOptions 1], []) =
   Inr (4, ([exampleOptions 4, exampleOptions 1,
             \<lparr>opt_size = (100, 100), opt_sizeIsPercentage = True,
              options = \<lparr>createMipMaps = False, generateDepthBuffer = False, textureCount = 3,
                         opt_samples = 1, types = [2, 1, 0], formats = [5, 6, 5],
                         labels = [''ViewNormal'', ''ViewDepth'', ''Albedo'']\<rparr>\<rparr>], []))"
  by (simp add: createMultiRenderTargetTexture_def exampleEnv_def exampleTask_def examplePlanes_def
      exampleCatalogue_def geometryDescriptionOf_def js_index_def)

lemma example_record_succeeds_None:
  "\<not> isl (fst (recordFrameGraph exampleEnv (exampleState None examplePlanes)))"
  by code_simp

lemma example_record_succeeds_Some:
  "\<not> isl (fst (recordFrameGraph exampleEnv (exampleState (Some (Handle 3)) examplePlanes)))"
  by code_simp

lemma example_record_calls:
  "(case recordFrameGraph exampleEnv (exampleState (Some (Handle 3)) examplePlanes) of
     (Inr p, s') \<Rightarrow> map_option (\<lambda>f. f (this s')) (executeFunc p)
   | (Inl e, s') \<Rightarrow> None) =
   Some [SetRenderList [7, 8], SetParticleSystemList [], IncrementRenderId,
     SetDepthStates True True,
     ClearColorAttachments (Some (Color4_new 0 0 0 0)) [1, 0, 1],
     ClearColorAttachments (Some (Color4_new 100000000 100000000 100000000 100000000)) [0, 1, 0],
     BindAttachments [1, 1, 1], Render]"
  by code_simp

lemma not_isl_fst: "\<not> isl (fst R) \<Longrightarrow> \<exists>p s'. R = (Inr p, s')"
  by (cases R; cases "fst R") auto

subsection \<open>The partition of the attachments by clear kind\<close>

text \<open>Claim C1. For every non-empty list of N texture descriptions whose types all appear in
  the geometry plane catalogue, \<open>_buildClearAttachmentsLayout\<close> does not throw; the map it
  builds (before \<open>buildTextureLayout\<close> turns the layouts into numbers) has one boolean layout
  per distinct clear kind present; each layout has length N and is true at index i exactly when
  the clear kind of plane i is the kind of the layout; so every index is true in exactly one
  layout.\<close>

theorem clearLayout_partition:
  assumes "textureDescriptions t \<noteq> []"
    and "\<forall>d\<in>set (textureDescriptions t). type d \<in> gd_type ` set (GeometryTextureDescriptions env)"
  shows "\<exists>m al.
      clearLayoutLoop (GeometryTextureDescriptions env) (textureDescriptions t) 0 ([], []) = Inr (m, al) \<and>
      buildClearAttachmentsLayout env t =
        Inr (t\<lparr>clearAttachmentsLayout := map (\<lambda>(k, layout). (k, buildTextureLayout env layout)) m,
               allAttachmentsLayout := buildTextureLayout env al\<rparr>) \<and>
      distinct (map fst m) \<and>
      fst ` set m = {k. \<exists>d\<in>set (textureDescriptions t).
                        planeClearType (GeometryTextureDescriptions env) d = Some k} \<and>
      (\<forall>(k, layout)\<in>set m. length layout = length (textureDescriptions t) \<and>
         (\<forall>i<length (textureDescriptions t).
            layout ! i = (planeClearType (GeometryTextureDescriptions env) (textureDescriptions t ! i) = Some k))) \<and>
      (\<forall>i<length (textureDescriptions t). \<exists>!p. p \<in> set m \<and> snd p ! i)"
proof -
  define cat where "cat = GeometryTextureDescriptions env"
  define ds where "ds = textureDescriptions t"
  have known: "\<forall>d\<in>set ds. type d \<in> gd_type ` set cat" using assms(2) by (simp add: cat_def ds_def)
  from clearLayoutLoop_total[OF known] obtain st' where
    "clearLayoutLoop cat ds 0 ([], []) = Inr st'" by blast
  then obtain m al where r: "clearLayoutLoop cat ds 0 ([], []) = Inr (m, al)" by (cases st') auto
  note d = clearLayoutLoop_result(1)[OF r]
  note keys = clearLayoutLoop_result(2)[OF r]
  note lay = clearLayoutLoop_result(3)[OF r]
  have uniq: "\<exists>!p. p \<in> set m \<and> snd p ! i" if "i < length ds" for i
  proof -
    from known that obtain gd where "geometryDescriptionOf cat (ds ! i) = Some gd"
      using geometryDescriptionOf_known[of "ds ! i" cat] by auto
    then have pct: "planeClearType cat (ds ! i) = Some (gd_clearType gd)"
      by (simp add: planeClearType_def)
    with keys that have "gd_clearType gd \<in> fst ` set m" by auto
    then obtain layout where mem: "(gd_clearType gd, layout) \<in> set m" by auto
    with lay that pct have "layout ! i" by auto
    show ?thesis
    proof (rule ex1I[of _ "(gd_clearType gd, layout)"])
      show "(gd_clearType gd, layout) \<in> set m \<and> snd (gd_clearType gd, layout) ! i"
        using mem \<open>layout ! i\<close> by simp
    next
      fix p assume p: "p \<in> set m \<and> snd p ! i"
      obtain k l where pk: "p = (k, l)" by (cases p)
      with p lay that pct have "k = gd_clearType gd" by auto
      with d mem p pk show "p = (gd_clearType gd, layout)"
        by (metis eq_key_imp_eq_value)
    qed
  qed
  have b: "buildClearAttachmentsLayout env t =
        Inr (t\<lparr>clearAttachmentsLayout := map (\<lambda>(k, layout). (k, buildTextureLayout env layout)) m,
               allAttachmentsLayout := buildTextureLayout env al\<rparr>)"
    using r by (simp add: buildClearAttachmentsLayout_def cat_def ds_def)
  show ?thesis using r b d keys lay uniq unfolding cat_def ds_def by blast
qed

theorem clearLayout_partition_witness:
  "textureDescriptions (exampleTask None examplePlanes) \<noteq> [] \<and>
   clearLayoutLoop (GeometryTextureDescriptions exampleEnv)
      (textureDescriptions (exampleTask None examplePlanes)) 0 ([], []) =
     Inr ([(0, [True, False, True]), (2, [False, True, False])], [True, True, True]) \<and>
   (\<exists>!p. p \<in> set [(0, [True, False, True]), (2 :: nat, [False, True, False])] \<and> snd p ! 0) \<and>
   (\<exists>!p. p \<in> set [(0, [True, False, True]), (2 :: nat, [False, True, False])] \<and> snd p ! 1) \<and>
   (\<exists>!p. p \<in> set [(0, [True, False, True]), (2 :: nat, [False, True, False])] \<and> snd p ! 2)"
proof -
  have ds: "textureDescriptions (exampleTask None examplePlanes) = examplePlanes"
    by (simp add: exampleTask_def)
  have cat: "GeometryTextureDescriptions exampleEnv = exampleCatalogue" by (simp add: exampleEnv_def)
  have ne: "textureDescriptions (exampleTask None examplePlanes) \<noteq> []"
    by (simp add: exampleTask_def examplePlanes_def)
  have known: "\<forall>d\<in>set (textureDescriptions (exampleTask None examplePlanes)).
      type d \<in> gd_type ` set (GeometryTextureDescriptions exampleEnv)"
    using examplePlanes_known by (simp add: ds cat)
  have len: "length examplePlanes = 3" by (simp add: examplePlanes_def)
  from clearLayout_partition[OF ne known] clearLayout_example
  have u: "\<forall>i<3. \<exists>!p. p \<in> set [(0, [True, False, True]), (2 :: nat, [False, True, False])] \<and> snd p ! i"
    by (auto simp: ds cat len)
  have "(0::nat) < 3" "(1::nat) < 3" "(2::nat) < 3" by simp_all
  with u have "\<exists>!p. p \<in> set [(0, [True, False, True]), (2 :: nat, [False, True, False])] \<and> snd p ! 0"
    "\<exists>!p. p \<in> set [(0, [True, False, True]), (2 :: nat, [False, True, False])] \<and> snd p ! 1"
    "\<exists>!p. p \<in> set [(0, [True, False, True]), (2 :: nat, [False, True, False])] \<and> snd p ! 2"
    by blast+
  with ne clearLayout_example show ?thesis by (simp only: ds cat simp_thms)
qed

subsection \<open>What recordFrameGraph throws and returns\<close>

lemma textureOptionsLoop_error:
  "textureOptionsLoop cat t ds acc = Inl e \<Longrightarrow> \<exists>msg. e = Error (taskPrefix t @ msg)"
proof (induction ds arbitrary: acc)
  case Nil
  then show ?case by simp
next
  case (Cons d ds)
  obtain tys fmts lbls where acc: "acc = (tys, fmts, lbls)" by (cases acc)
  show ?case
  proof (cases "geometryDescriptionOf cat d")
    case None
    with Cons.prems acc show ?thesis by auto
  next
    case (Some gd)
    with Cons.prems acc Cons.IH show ?thesis by auto
  qed
qed

lemma createMultiRenderTargetTexture_error:
  "createMultiRenderTargetTexture env t fg = Inl e \<Longrightarrow> \<exists>msg. e = Error (taskPrefix t @ msg)"
  by (auto simp: createMultiRenderTargetTexture_def split: sum.splits prod.splits
      dest: textureOptionsLoop_error)

lemma textureOptionsLoop_total:
  assumes "\<forall>d\<in>set ds. type d \<in> gd_type ` set cat"
  shows "\<exists>r. textureOptionsLoop cat t ds acc = Inr r"
  using assms
proof (induction ds arbitrary: acc)
  case Nil
  have "textureOptionsLoop cat t [] acc = Inr acc" by simp
  then show ?case by (rule exI)
next
  case (Cons d ds)
  obtain tys fmts lbls where acc: "acc = (tys, fmts, lbls)" using prod_cases3 by blast
  from Cons.prems obtain gd where "geometryDescriptionOf cat d = Some gd"
    using geometryDescriptionOf_known[of d cat] by auto
  with Cons acc show ?case by simp
qed

lemma createMultiRenderTargetTexture_total:
  assumes "\<forall>d\<in>set (textureDescriptions t). type d \<in> gd_type ` set (GeometryTextureDescriptions env)"
  shows "\<exists>out fg1. createMultiRenderTargetTexture env t fg = Inr (out, fg1)"
proof -
  from textureOptionsLoop_total[OF assms] obtain r where
    "textureOptionsLoop (GeometryTextureDescriptions env) t (textureDescriptions t) ([], [], []) = Inr r"
    by blast
  then show ?thesis
    by (cases r) (simp add: createMultiRenderTargetTexture_def split: prod.splits)
qed

lemma recordFrameGraph_early:
  "textureDescriptions (this s) = [] \<or> objectList (this s) = None \<Longrightarrow>
   recordFrameGraph env s = (Inl (Error (taskPrefix (this s)
      @ '': object list and at least one geometry texture description must be provided'')), s)"
  by (simp add: recordFrameGraph_def)

lemma recordFrameGraph_create_error:
  "textureDescriptions (this s) \<noteq> [] \<Longrightarrow> objectList (this s) \<noteq> None \<Longrightarrow>
   createMultiRenderTargetTexture env (this s) (frameGraph s) = Inl e \<Longrightarrow>
   recordFrameGraph env s = (Inl e, s)"
  by (auto simp: recordFrameGraph_def)

lemma recordFrameGraph_depth_error:
  "textureDescriptions (this s) \<noteq> [] \<Longrightarrow> objectList (this s) \<noteq> None \<Longrightarrow>
   createMultiRenderTargetTexture env (this s) (frameGraph s) = Inr (out, fg1) \<Longrightarrow>
   checkDepthTextureCompatibility env (this s) fg1 = Inl e \<Longrightarrow>
   recordFrameGraph env s = (Inl e, s\<lparr>frameGraph := fg1\<rparr>)"
  by (auto simp: recordFrameGraph_def)

lemma recordFrameGraph_success:
  assumes "recordFrameGraph env s = (Inr pass, s')"
  shows "\<exists>out fg1 depthEnabled t2 objList.
     createMultiRenderTargetTexture env (this s) (frameGraph s) = Inr (out, fg1) \<and>
     checkDepthTextureCompatibility env (this s) fg1 = Inr depthEnabled \<and>
     buildClearAttachmentsLayout env (this s) = Inr t2 \<and>
     executeFunc pass = Some (executeClosure objList depthEnabled) \<and>
     clearAttachmentsLayout (this s') = clearAttachmentsLayout t2 \<and>
     allAttachmentsLayout (this s') = allAttachmentsLayout t2"
  using assms
  by (auto simp: recordFrameGraph_def Let_def setExecuteFunc_def
      split: if_splits sum.splits prod.splits option.splits)

lemma checkDepth_enabled:
  "checkDepthTextureCompatibility env t fg = Inr de \<Longrightarrow> de = (depthTexture t \<noteq> None)"
  by (auto simp: checkDepthTextureCompatibility_def split: option.splits sum.splits if_splits)

lemma filter_depth_clears:
  "filter isSetDepthStates (map (\<lambda>(clearType, layout). ClearColorAttachments (c clearType) layout) m) = []"
  by (induction m) auto

lemma executeClosure_depth:
  "filter isSetDepthStates (executeClosure objList de t) =
     [SetDepthStates (depthTest t \<and> de) (depthWrite t \<and> de)]"
  by (simp add: executeClosure_def filter_depth_clears)

lemma clearColors_values:
  "js_index clearColors 0 = Some (Color4_new 0 0 0 0)"
  "js_index clearColors 1 = Some (Color4_new 1 1 1 1)"
  "js_index clearColors 2 = Some (Color4_new 100000000 100000000 100000000 100000000)"
  by (simp_all add: js_index_def clearColors_def)

subsection \<open>Depth texture with another sample count\<close>

text \<open>Claim C3, as the code has it. In every call of \<open>recordFrameGraph\<close> in which
  \<open>depthTexture\<close> is defined, resolves to a handle other than the back buffer
  depth/stencil sentinel, and the description of that handle has a sample count other
  than \<open>samples\<close> of the task, the call throws an error whose message starts with
  \<open>FrameGraphGeometryRendererTask <name>\<close>: the error of an earlier check when one
  fails, and otherwise (texture descriptions present and all of catalogue types, object
  list defined) the error that the depth texture and the output texture must have the
  same number of samples. That message names the task and the rule; it is the same for
  all sample counts.\<close>

theorem depth_samples_mismatch_error:
  assumes "depthTexture (this s) = Some dt"
    and "\<And>out fg1. createMultiRenderTargetTexture env (this s) (frameGraph s) = Inr (out, fg1)
           \<Longrightarrow> \<exists>h d. getTextureHandle env dt fg1 = Inr h \<and>
                  h \<noteq> backbufferDepthStencilTextureHandle env \<and>
                  getTextureDescription env h fg1 = Inr d \<and>
                  opt_samples (options d) \<noteq> samples (this s)"
  shows "(\<exists>msg. fst (recordFrameGraph env s) =
            Inl (Error (''FrameGraphGeometryRendererTask '' @ name (this s) @ msg))) \<and>
         (textureDescriptions (this s) \<noteq> [] \<and> objectList (this s) \<noteq> None \<and>
          (\<forall>d\<in>set (textureDescriptions (this s)).
              type d \<in> gd_type ` set (GeometryTextureDescriptions env)) \<longrightarrow>
          fst (recordFrameGraph env s) =
            Inl (Error (''FrameGraphGeometryRendererTask '' @ name (this s)
              @ '': the depth texture and the output texture must have the same number of samples'')))"
proof (cases "textureDescriptions (this s) = [] \<or> objectList (this s) = None")
  case True
  from recordFrameGraph_early[OF True, of env] show ?thesis
    using True by (auto simp: taskPrefix_def)
next
  case False
  then have ne: "textureDescriptions (this s) \<noteq> []" "objectList (this s) \<noteq> None" by auto
  show ?thesis
  proof (cases "createMultiRenderTargetTexture env (this s) (frameGraph s)")
    case (Inl e)
    from createMultiRenderTargetTexture_error[OF Inl] obtain msg where
      "e = Error (taskPrefix (this s) @ msg)" by blast
    moreover have "\<not> (\<forall>d\<in>set (textureDescriptions (this s)).
              type d \<in> gd_type ` set (GeometryTextureDescriptions env))"
      using createMultiRenderTargetTexture_total[of "this s" env "frameGraph s"] Inl by auto
    ultimately show ?thesis using recordFrameGraph_create_error[OF ne Inl]
      by (auto simp: taskPrefix_def)
  next
    case (Inr r)
    obtain out fg1 where r: "r = (out, fg1)" by (cases r)
    from assms(2)[of out fg1] Inr r obtain h d where
      "getTextureHandle env dt fg1 = Inr h" "h \<noteq> backbufferDepthStencilTextureHandle env"
      "getTextureDescription env h fg1 = Inr d" "opt_samples (options d) \<noteq> samples (this s)"
      by auto
    with assms(1) have "checkDepthTextureCompatibility env (this s) fg1 =
       Inl (Error (taskPrefix (this s)
         @ '': the depth texture and the output texture must have the same number of samples''))"
      by (simp add: checkDepthTextureCompatibility_def)
    from recordFrameGraph_depth_error[OF ne _ this, of out] Inr r show ?thesis
      by (auto simp: taskPrefix_def)
  qed
qed

theorem depth_samples_mismatch_error_witness:
  "depthTexture (this (exampleState (Some (Handle 2)) examplePlanes)) = Some (Handle 2) \<and>
   samples (this (exampleState (Some (Handle 2)) examplePlanes)) = 1 \<and>
   opt_samples (options (exampleOptions 4)) = 4 \<and>
   fst (recordFrameGraph exampleEnv (exampleState (Some (Handle 2)) examplePlanes)) =
     Inl (Error ''FrameGraphGeometryRendererTask geometry: the depth texture and the output texture must have the same number of samples'')"
proof -
  let ?s = "exampleState (Some (Handle 2)) examplePlanes"
  have 1: "textureDescriptions (this ?s) \<noteq> []"
    by (simp add: exampleState_def exampleTask_def examplePlanes_def)
  have 2: "objectList (this ?s) \<noteq> None" by (simp add: exampleState_def exampleTask_def)
  have 3: "createMultiRenderTargetTexture exampleEnv (this ?s) (frameGraph ?s) =
     Inr (4, ([exampleOptions 4, exampleOptions 1,
             \<lparr>opt_size = (100, 100), opt_sizeIsPercentage = True,
              options = \<lparr>createMipMaps = False, generateDepthBuffer = False, textureCount = 3,
                         opt_samples = 1, types = [2, 1, 0], formats = [5, 6, 5],
                         labels = [''ViewNormal'', ''ViewDepth'', ''Albedo'']\<rparr>\<rparr>], []))"
    using example_create[of "Some (Handle 2)"] by (simp add: exampleState_def)
  have 4: "depthTexture (this ?s) = Some (Handle 2)" by (simp add: exampleState_def exampleTask_def)
  have 5: "getTextureHandle exampleEnv (Handle 2) fg = Inr 2" for fg
    by (simp add: exampleEnv_def)
  have 6: "2 \<noteq> backbufferDepthStencilTextureHandle exampleEnv" by (simp add: exampleEnv_def)
  have 7: "getTextureDescription exampleEnv 2 ([exampleOptions 4, x, y], z) = Inr (exampleOptions 4)"
    for x y z by (simp add: exampleEnv_def)
  have 8: "opt_samples (options (exampleOptions 4)) \<noteq> samples (this ?s)"
    by (simp add: exampleOptions_def exampleState_def exampleTask_def)
  have "(\<exists>msg. fst (recordFrameGraph exampleEnv ?s) =
            Inl (Error (''FrameGraphGeometryRendererTask '' @ name (this ?s) @ msg))) \<and>
         (textureDescriptions (this ?s) \<noteq> [] \<and> objectList (this ?s) \<noteq> None \<and>
          (\<forall>d\<in>set (textureDescriptions (this ?s)).
              type d \<in> gd_type ` set (GeometryTextureDescriptions exampleEnv)) \<longrightarrow>
          fst (recordFrameGraph exampleEnv ?s) =
            Inl (Error (''FrameGraphGeometryRendererTask '' @ name (this ?s)
              @ '': the depth texture and the output texture must have the same number of samples'')))"
  proof (rule depth_samples_mismatch_error[of ?s "Handle 2" exampleEnv])
    show "depthTexture (this ?s) = Some (Handle 2)" by (rule 4)
  next
    fix out fg1
    assume "createMultiRenderTargetTexture exampleEnv (this ?s) (frameGraph ?s) = Inr (out, fg1)"
    with 3 5 6 7 8 show "\<exists>h d. getTextureHandle exampleEnv (Handle 2) fg1 = Inr h \<and>
                  h \<noteq> backbufferDepthStencilTextureHandle exampleEnv \<and>
                  getTextureDescription exampleEnv h fg1 = Inr d \<and>
                  opt_samples (options d) \<noteq> samples (this ?s)"
      by auto
  qed
  with 1 2 example_known[of "Some (Handle 2)"]
  have "fst (recordFrameGraph exampleEnv ?s) =
     Inl (Error (''FrameGraphGeometryRendererTask '' @ name (this ?s)
        @ '': the depth texture and the output texture must have the same number of samples''))"
    by blast
  with 4 show ?thesis
    by (simp add: exampleState_def exampleTask_def exampleOptions_def)
qed

text \<open>Claim C3 as stated asks for an error that names both sample counts. With a depth
  texture of 4 samples and a task of 1 sample, the message thrown contains neither
  \<open>4\<close> nor \<open>1\<close>.\<close>

theorem depth_samples_counts_counterexample:
  "depthTexture (this (exampleState (Some (Handle 2)) examplePlanes)) = Some (Handle 2) \<and>
   samples (this (exampleState (Some (Handle 2)) examplePlanes)) = 1 \<and>
   fst (recordFrameGraph exampleEnv (exampleState (Some (Handle 2)) examplePlanes)) =
     Inl (Error ''FrameGraphGeometryRendererTask geometry: the depth texture and the output texture must have the same number of samples'') \<and>
   \<not> sublist (numberToString 4)
      ''FrameGraphGeometryRendererTask geometry: the depth texture and the output texture must have the same number of samples'' \<and>
   \<not> sublist (numberToString 1)
      ''FrameGraphGeometryRendererTask geometry: the depth texture and the output texture must have the same number of samples''"
proof -
  have n4: "numberToString 4 = ''4''" by (simp add: numberToString_def natToString.simps digitChar_def)
  have n1: "numberToString 1 = ''1''" by (simp add: numberToString_def natToString.simps digitChar_def)
  have a: "\<not> sublist ''4'' ''FrameGraphGeometryRendererTask geometry: the depth texture and the output texture must have the same number of samples''"
    by (simp add: sublist_Cons_right)
  have b: "\<not> sublist ''1'' ''FrameGraphGeometryRendererTask geometry: the depth texture and the output texture must have the same number of samples''"
    by (simp add: sublist_Cons_right)
  let ?s = "exampleState (Some (Handle 2)) examplePlanes"
  have 1: "textureDescriptions (this ?s) \<noteq> []"
    by (simp add: exampleState_def exampleTask_def examplePlanes_def)
  have 2: "objectList (this ?s) \<noteq> None" by (simp add: exampleState_def exampleTask_def)
  have 3: "createMultiRenderTargetTexture exampleEnv (this ?s) (frameGraph ?s) =
     Inr (4, ([exampleOptions 4, exampleOptions 1,
             \<lparr>opt_size = (100, 100), opt_sizeIsPercentage = True,
              options = \<lparr>createMipMaps = False, generateDepthBuffer = False, textureCount = 3,
                         opt_samples = 1, types = [2, 1, 0], formats = [5, 6, 5],
                         labels = [''ViewNormal'', ''ViewDepth'', ''Albedo'']\<rparr>\<rparr>], []))"
    using example_create[of "Some (Handle 2)"] by (simp add: exampleState_def)
  have 4: "checkDepthTextureCompatibility exampleEnv (this ?s) ([exampleOptions 4, x, y], z) =
     Inl (Error ''FrameGraphGeometryRendererTask geometry: the depth texture and the output texture must have the same number of samples'')"
    for x y z
    by (simp add: checkDepthTextureCompatibility_def exampleState_def exampleTask_def exampleEnv_def
        exampleOptions_def taskPrefix_def)
  have c: "fst (recordFrameGraph exampleEnv ?s) =
     Inl (Error ''FrameGraphGeometryRendererTask geometry: the depth texture and the output texture must have the same number of samples'')"
    using recordFrameGraph_depth_error[OF 1 2 3 4] by simp
  show ?thesis using a b c n4 n1 by (simp add: exampleState_def exampleTask_def)
qed

subsection \<open>The back buffer depth/stencil as depth texture\<close>

text \<open>Claim C4. In every call of \<open>recordFrameGraph\<close> in which \<open>depthTexture\<close> is
  defined and resolves to the back buffer depth/stencil sentinel, the call throws an
  error whose message starts with \<open>FrameGraphGeometryRendererTask <name>\<close>: the error
  of an earlier check when one fails, and otherwise the error that the depth/stencil back
  buffer is not allowed as a depth texture.\<close>

theorem backbuffer_depth_rejected:
  assumes "depthTexture (this s) = Some dt"
    and "\<And>out fg1. createMultiRenderTargetTexture env (this s) (frameGraph s) = Inr (out, fg1)
            \<Longrightarrow> getTextureHandle env dt fg1 = Inr (backbufferDepthStencilTextureHandle env)"
  shows "(\<exists>msg. fst (recordFrameGraph env s) =
            Inl (Error (''FrameGraphGeometryRendererTask '' @ name (this s) @ msg))) \<and>
         (textureDescriptions (this s) \<noteq> [] \<and> objectList (this s) \<noteq> None \<and>
          (\<forall>d\<in>set (textureDescriptions (this s)).
              type d \<in> gd_type ` set (GeometryTextureDescriptions env)) \<longrightarrow>
          fst (recordFrameGraph env s) =
            Inl (Error (''FrameGraphGeometryRendererTask '' @ name (this s)
              @ '': the depth/stencil back buffer is not allowed as a depth texture'')))"
proof (cases "textureDescriptions (this s) = [] \<or> objectList (this s) = None")
  case True
  from recordFrameGraph_early[OF True, of env] show ?thesis
    using True by (auto simp: taskPrefix_def)
next
  case False
  then have ne: "textureDescriptions (this s) \<noteq> []" "objectList (this s) \<noteq> None" by auto
  show ?thesis
  proof (cases "createMultiRenderTargetTexture env (this s) (frameGraph s)")
    case (Inl e)
    from createMultiRenderTargetTexture_error[OF Inl] obtain msg where
      "e = Error (taskPrefix (this s) @ msg)" by blast
    moreover have "\<not> (\<forall>d\<in>set (textureDescriptions (this s)).
              type d \<in> gd_type ` set (GeometryTextureDescriptions env))"
      using createMultiRenderTargetTexture_total[of "this s" env "frameGraph s"] Inl by auto
    ultimately show ?thesis using recordFrameGraph_create_error[OF ne Inl]
      by (auto simp: taskPrefix_def)
  next
    case (Inr r)
    obtain out fg1 where r: "r = (out, fg1)" by (cases r)
    from assms(2)[of out fg1] Inr r have
      "getTextureHandle env dt fg1 = Inr (backbufferDepthStencilTextureHandle env)" by simp
    with assms(1) have "checkDepthTextureCompatibility env (this s) fg1 =
       Inl (Error (taskPrefix (this s)
         @ '': the depth/stencil back buffer is not allowed as a depth texture''))"
      by (simp add: checkDepthTextureCompatibility_def)
    from recordFrameGraph_depth_error[OF ne _ this, of out] Inr r show ?thesis
      by (auto simp: taskPrefix_def)
  qed
qed

theorem backbuffer_depth_rejected_witness:
  "depthTexture (this (exampleState (Some (Handle 1)) examplePlanes)) = Some (Handle 1) \<and>
   backbufferDepthStencilTextureHandle exampleEnv = 1 \<and>
   fst (recordFrameGraph exampleEnv (exampleState (Some (Handle 1)) examplePlanes)) =
     Inl (Error ''FrameGraphGeometryRendererTask geometry: the depth/stencil back buffer is not allowed as a depth texture'')"
proof -
  let ?s = "exampleState (Some (Handle 1)) examplePlanes"
  have 1: "depthTexture (this ?s) = Some (Handle 1)" by (simp add: exampleState_def exampleTask_def)
  have 2: "getTextureHandle exampleEnv (Handle 1) fg1 = Inr (backbufferDepthStencilTextureHandle exampleEnv)"
    for fg1 by (simp add: exampleEnv_def)
  have 3: "textureDescriptions (this ?s) \<noteq> []"
    by (simp add: exampleState_def exampleTask_def examplePlanes_def)
  have 4: "objectList (this ?s) \<noteq> None" by (simp add: exampleState_def exampleTask_def)
  have 6: "name (this ?s) = ''geometry''" by (simp add: exampleState_def exampleTask_def)
  have 7: "backbufferDepthStencilTextureHandle exampleEnv = 1" by (simp add: exampleEnv_def)
  from backbuffer_depth_rejected[of ?s "Handle 1" exampleEnv, OF 1 2] 3 4 example_known[of "Some (Handle 1)"]
  have "fst (recordFrameGraph exampleEnv ?s) =
     Inl (Error (''FrameGraphGeometryRendererTask '' @ name (this ?s)
        @ '': the depth/stencil back buffer is not allowed as a depth texture''))"
    by blast
  with 1 6 7 show ?thesis by simp
qed

subsection \<open>No texture descriptions or no object list\<close>

text \<open>Claim C5. With no texture description or with an undefined object list,
  \<open>recordFrameGraph\<close> throws an error that names the task, and the state is as it was
  before the call: no texture was created, no render pass was added, the task and the
  configurations are unchanged.\<close>

theorem missing_inputs_throw_before_any_change:
  assumes "textureDescriptions (this s) = [] \<or> objectList (this s) = None"
  shows "recordFrameGraph env s =
     (Inl (Error (''FrameGraphGeometryRendererTask '' @ name (this s)
        @ '': object list and at least one geometry texture description must be provided'')), s)"
  using recordFrameGraph_early[OF assms, of env] by (simp add: taskPrefix_def)

theorem missing_inputs_throw_before_any_change_witness:
  "textureDescriptions (this (exampleState None [])) = [] \<and>
   recordFrameGraph exampleEnv (exampleState None []) =
     (Inl (Error ''FrameGraphGeometryRendererTask geometry: object list and at least one geometry texture description must be provided''),
      exampleState None [])"
proof -
  have 1: "textureDescriptions (this (exampleState None [])) = []"
    by (simp add: exampleState_def exampleTask_def)
  have 2: "name (this (exampleState None [])) = ''geometry''"
    by (simp add: exampleState_def exampleTask_def)
  from missing_inputs_throw_before_any_change[of "exampleState None []" exampleEnv] 1 2
  show ?thesis by simp
qed

subsection \<open>The calls of the execute closure\<close>

text \<open>Claim C9. For a pass recorded with N plane descriptions, the execute closure, run on
  the task as \<open>recordFrameGraph\<close> left it, makes after the four opening calls exactly one
  \<open>clearColorAttachments\<close> call per distinct clear kind present, with the colour
  \<open>clearColors[kind]\<close> (transparent zero, opaque white, or 1e8 in every channel) and the
  layout of that kind, then a single \<open>bindAttachments\<close> call with all N attachments, then
  \<open>render\<close>.\<close>

theorem execute_clears_once_per_kind:
  assumes "recordFrameGraph env s = (Inr pass, s')"
  shows "\<exists>f ms ps dt dw kinds.
     executeFunc pass = Some f \<and>
     f (this s') =
        [SetRenderList ms, SetParticleSystemList ps, IncrementRenderId, SetDepthStates dt dw]
        @ map (\<lambda>k. ClearColorAttachments (js_index clearColors k)
                 (buildTextureLayout env
                    (planeLayout (GeometryTextureDescriptions env) (textureDescriptions (this s)) k)))
            kinds
        @ [BindAttachments (buildTextureLayout env (replicate (length (textureDescriptions (this s))) True)),
           Render] \<and>
     distinct kinds \<and>
     set kinds = {k. \<exists>d\<in>set (textureDescriptions (this s)).
                    planeClearType (GeometryTextureDescriptions env) d = Some k} \<and>
     js_index clearColors 0 = Some (Color4_new 0 0 0 0) \<and>
     js_index clearColors 1 = Some (Color4_new 1 1 1 1) \<and>
     js_index clearColors 2 = Some (Color4_new 100000000 100000000 100000000 100000000)"
proof -
  let ?cat = "GeometryTextureDescriptions env" and ?ds = "textureDescriptions (this s)"
  from recordFrameGraph_success[OF assms] obtain de t2 objList where
    b: "buildClearAttachmentsLayout env (this s) = Inr t2"
    and f: "executeFunc pass = Some (executeClosure objList de)"
    and c: "clearAttachmentsLayout (this s') = clearAttachmentsLayout t2"
    and a: "allAttachmentsLayout (this s') = allAttachmentsLayout t2"
    by blast
  from b obtain m al where
    l: "clearLayoutLoop ?cat ?ds 0 ([], []) = Inr (m, al)"
    and t2: "t2 = (this s)\<lparr>clearAttachmentsLayout :=
                    map (\<lambda>(clearType, layout). (clearType, buildTextureLayout env layout)) m,
                 allAttachmentsLayout := buildTextureLayout env al\<rparr>"
    by (auto simp: buildClearAttachmentsLayout_def split: sum.splits prod.splits)
  define kinds where "kinds = map fst m"
  have m: "m = map (\<lambda>k. (k, planeLayout ?cat ?ds k)) kinds"
    unfolding kinds_def by (rule clearLayoutLoop_planeLayout[OF l])
  have al: "al = replicate (length ?ds) True" by (rule clearLayoutLoop_result(4)[OF l])
  have "map (\<lambda>(clearType, layout). ClearColorAttachments (js_index clearColors clearType) layout)
          (map (\<lambda>(clearType, layout). (clearType, buildTextureLayout env layout)) m) =
        map (\<lambda>k. ClearColorAttachments (js_index clearColors k)
                 (buildTextureLayout env (planeLayout ?cat ?ds k))) kinds"
    by (subst m) (simp add: comp_def)
  then have ex: "executeClosure objList de (this s') =
        [SetRenderList (meshes objList), SetParticleSystemList (particleSystems objList),
         IncrementRenderId, SetDepthStates (depthTest (this s') \<and> de) (depthWrite (this s') \<and> de)]
        @ map (\<lambda>k. ClearColorAttachments (js_index clearColors k)
                 (buildTextureLayout env (planeLayout ?cat ?ds k))) kinds
        @ [BindAttachments (buildTextureLayout env (replicate (length ?ds) True)), Render]"
    by (simp add: executeClosure_def c a t2 al)
  have dk: "distinct kinds" unfolding kinds_def by (rule clearLayoutLoop_result(1)[OF l])
  have sk: "set kinds = {k. \<exists>d\<in>set ?ds. planeClearType ?cat d = Some k}"
    unfolding kinds_def using clearLayoutLoop_result(2)[OF l] by simp
  show ?thesis
  proof (intro exI conjI)
    show "executeFunc pass = Some (executeClosure objList de)" by (rule f)
    show "executeClosure objList de (this s') =
        [SetRenderList (meshes objList), SetParticleSystemList (particleSystems objList),
         IncrementRenderId, SetDepthStates (depthTest (this s') \<and> de) (depthWrite (this s') \<and> de)]
        @ map (\<lambda>k. ClearColorAttachments (js_index clearColors k)
                 (buildTextureLayout env (planeLayout ?cat ?ds k))) kinds
        @ [BindAttachments (buildTextureLayout env (replicate (length ?ds) True)), Render]"
      by (rule ex)
    show "distinct kinds" by (rule dk)
    show "set kinds = {k. \<exists>d\<in>set ?ds. planeClearType ?cat d = Some k}" by (rule sk)
    show "js_index clearColors 0 = Some (Color4_new 0 0 0 0)" by (rule clearColors_values)
    show "js_index clearColors 1 = Some (Color4_new 1 1 1 1)" by (rule clearColors_values)
    show "js_index clearColors 2 = Some (Color4_new 100000000 100000000 100000000 100000000)"
      by (rule clearColors_values)
  qed
qed

theorem execute_clears_once_per_kind_witness:
  "(case recordFrameGraph exampleEnv (exampleState (Some (Handle 3)) examplePlanes) of
      (Inr p, s') \<Rightarrow> map_option (\<lambda>f. f (this s')) (executeFunc p)
    | (Inl e, s') \<Rightarrow> None) =
    Some [SetRenderList [7, 8], SetParticleSystemList [], IncrementRenderId,
      SetDepthStates True True,
      ClearColorAttachments (Some (Color4_new 0 0 0 0)) [1, 0, 1],
      ClearColorAttachments (Some (Color4_new 100000000 100000000 100000000 100000000)) [0, 1, 0],
      BindAttachments [1, 1, 1], Render] \<and>
   (\<exists>pass s'. recordFrameGraph exampleEnv (exampleState (Some (Handle 3)) examplePlanes) = (Inr pass, s') \<and>
    (\<exists>f ms ps dt dw kinds.
     executeFunc pass = Some f \<and>
     f (this s') =
        [SetRenderList ms, SetParticleSystemList ps, IncrementRenderId, SetDepthStates dt dw]
        @ map (\<lambda>k. ClearColorAttachments (js_index clearColors k)
                 (buildTextureLayout exampleEnv
                    (planeLayout (GeometryTextureDescriptions exampleEnv)
                       (textureDescriptions (this (exampleState (Some (Handle 3)) examplePlanes))) k)))
            kinds
        @ [BindAttachments (buildTextureLayout exampleEnv
              (replicate (length (textureDescriptions (this (exampleState (Some (Handle 3)) examplePlanes)))) True)),
           Render] \<and>
     distinct kinds \<and>
     set kinds = {k. \<exists>d\<in>set (textureDescriptions (this (exampleState (Some (Handle 3)) examplePlanes))).
                    planeClearType (GeometryTextureDescriptions exampleEnv) d = Some k} \<and>
     js_index clearColors 0 = Some (Color4_new 0 0 0 0) \<and>
     js_index clearColors 1 = Some (Color4_new 1 1 1 1) \<and>
     js_index clearColors 2 = Some (Color4_new 100000000 100000000 100000000 100000000)))"
proof -
  obtain pass s' where r: "recordFrameGraph exampleEnv (exampleState (Some (Handle 3)) examplePlanes) = (Inr pass, s')"
    using not_isl_fst[OF example_record_succeeds_Some] by blast
  have "\<exists>pass s'. recordFrameGraph exampleEnv (exampleState (Some (Handle 3)) examplePlanes) = (Inr pass, s') \<and>
    (\<exists>f ms ps dt dw kinds.
     executeFunc pass = Some f \<and>
     f (this s') =
        [SetRenderList ms, SetParticleSystemList ps, IncrementRenderId, SetDepthStates dt dw]
        @ map (\<lambda>k. ClearColorAttachments (js_index clearColors k)
                 (buildTextureLayout exampleEnv
                    (planeLayout (GeometryTextureDescriptions exampleEnv)
                       (textureDescriptions (this (exampleState (Some (Handle 3)) examplePlanes))) k)))
            kinds
        @ [BindAttachments (buildTextureLayout exampleEnv
              (replicate (length (textureDescriptions (this (exampleState (Some (Handle 3)) examplePlanes)))) True)),
           Render] \<and>
     distinct kinds \<and>
     set kinds = {k. \<exists>d\<in>set (textureDescriptions (this (exampleState (Some (Handle 3)) examplePlanes))).
                    planeClearType (GeometryTextureDescriptions exampleEnv) d = Some k} \<and>
     js_index clearColors 0 = Some (Color4_new 0 0 0 0) \<and>
     js_index clearColors 1 = Some (Color4_new 1 1 1 1) \<and>
     js_index clearColors 2 = Some (Color4_new 100000000 100000000 100000000 100000000))"
    by (rule exI[of _ pass], rule exI[of _ s'], rule conjI, rule r,
        rule execute_clears_once_per_kind[OF r])
  with example_record_calls show ?thesis by (rule conjI)
qed

subsection \<open>Depth states\<close>

text \<open>Claim C10. The execute closure sets the depth states once. When \<open>depthTexture\<close> was
  undefined at record time, it sets depth test and depth write to false, whatever the
  flags of the task are when it runs; when a depth texture was given (and the recording
  succeeded, so the texture is compatible), it sets them to the flags \<open>depthTest\<close> and
  \<open>depthWrite\<close> of the task.\<close>

theorem depth_states_need_depth_texture:
  assumes "recordFrameGraph env s = (Inr pass, s')"
  shows "\<exists>f. executeFunc pass = Some f \<and>
     (depthTexture (this s) = None \<longrightarrow>
        (\<forall>t. filter isSetDepthStates (f t) = [SetDepthStates False False])) \<and>
     (depthTexture (this s) \<noteq> None \<longrightarrow>
        (\<forall>t. filter isSetDepthStates (f t) = [SetDepthStates (depthTest t) (depthWrite t)]))"
proof -
  from recordFrameGraph_success[OF assms] obtain out fg1 de objList where
    c: "checkDepthTextureCompatibility env (this s) fg1 = Inr de"
    and f: "executeFunc pass = Some (executeClosure objList de)"
    by blast
  from checkDepth_enabled[OF c] have "de = (depthTexture (this s) \<noteq> None)" .
  with f show ?thesis by (simp add: executeClosure_depth)
qed

theorem depth_states_need_depth_texture_witness:
  "(\<exists>pass s'. recordFrameGraph exampleEnv (exampleState None examplePlanes) = (Inr pass, s') \<and>
      (\<exists>f. executeFunc pass = Some f \<and>
         (\<forall>t. filter isSetDepthStates (f t) = [SetDepthStates False False]))) \<and>
   (\<exists>pass s'. recordFrameGraph exampleEnv (exampleState (Some (Handle 3)) examplePlanes) = (Inr pass, s') \<and>
      (\<exists>f. executeFunc pass = Some f \<and>
         (\<forall>t. filter isSetDepthStates (f t) = [SetDepthStates (depthTest t) (depthWrite t)])))"
proof -
  obtain p1 s1 where r1: "recordFrameGraph exampleEnv (exampleState None examplePlanes) = (Inr p1, s1)"
    using not_isl_fst[OF example_record_succeeds_None] by blast
  obtain p2 s2 where r2: "recordFrameGraph exampleEnv (exampleState (Some (Handle 3)) examplePlanes) = (Inr p2, s2)"
    using not_isl_fst[OF example_record_succeeds_Some] by blast
  have d1: "depthTexture (this (exampleState None examplePlanes)) = None"
    by (simp add: exampleState_def exampleTask_def)
  have d2: "depthTexture (this (exampleState (Some (Handle 3)) examplePlanes)) \<noteq> None"
    by (simp add: exampleState_def exampleTask_def)
  from depth_states_need_depth_texture[OF r1] d1 obtain f1 where
    "executeFunc p1 = Some f1" "\<forall>t. filter isSetDepthStates (f1 t) = [SetDepthStates False False]"
    by auto
  moreover from depth_states_need_depth_texture[OF r2] d2 obtain f2 where
    "executeFunc p2 = Some f2"
    "\<forall>t. filter isSetDepthStates (f2 t) = [SetDepthStates (depthTest t) (depthWrite t)]"
    by auto
  ultimately show ?thesis using r1 r2 by auto
qed

section \<open>Properties of the node render graph blocks\<close>

subsection \<open>The bloom block\<close>

lemma bloom_new_inputs:
  "bloom_inputs (NodeRenderGraphBloomPostProcessBlock_new n) =
     [addAcceptedConnectionPointTypes TextureAllButBackBuffer (newConnectionPoint ''source'' Texture False),
      addAcceptedConnectionPointTypes TextureAll (newConnectionPoint ''destination'' Texture True)]"
  by (simp add: NodeRenderGraphBloomPostProcessBlock_new_def registerInput_def registerOutput_def Let_def)

lemma bloom_source_only:
  "source (connectInput 0 p (NodeRenderGraphBloomPostProcessBlock_new n)) =
     Some (connect p (addAcceptedConnectionPointTypes TextureAllButBackBuffer (newConnectionPoint ''source'' Texture False)))"
  "destination (connectInput 0 p (NodeRenderGraphBloomPostProcessBlock_new n)) =
     Some (addAcceptedConnectionPointTypes TextureAll (newConnectionPoint ''destination'' Texture True))"
  by (simp_all add: source_def destination_def connectInput_def bloom_new_inputs js_index_def)

lemma bloom_both:
  "source (connectInput 1 q (connectInput 0 p (NodeRenderGraphBloomPostProcessBlock_new n))) =
     Some (connect p (addAcceptedConnectionPointTypes TextureAllButBackBuffer (newConnectionPoint ''source'' Texture False)))"
  "destination (connectInput 1 q (connectInput 0 p (NodeRenderGraphBloomPostProcessBlock_new n))) =
     Some (connect q (addAcceptedConnectionPointTypes TextureAll (newConnectionPoint ''destination'' Texture True)))"
  by (simp_all add: source_def destination_def connectInput_def bloom_new_inputs js_index_def)

lemma isConnected_simps:
  "isConnected (connect q p)"
  "\<not> isConnected (addAcceptedConnectionPointTypes ty (newConnectionPoint n k opt))"
  by (simp_all add: isConnected_def connect_def addAcceptedConnectionPointTypes_def newConnectionPoint_def)

text \<open>Claim C2. The resolver of the output of the bloom block returns the destination input
  when that input is connected, and the source input otherwise. So on a newly constructed
  block, connecting only the source makes the resolver return the source input, and the
  kind of the output is the kind of that input; connecting both makes it return the
  destination input, and the kind of the output is the kind of that input.\<close>

theorem basedOnInput_resolution:
  "(destination blk = Some d \<longrightarrow>
      typeConnectionSource blk = Inr (if isConnected d then Some d else source blk)) \<and>
   (let b1 = connectInput 0 p (NodeRenderGraphBloomPostProcessBlock_new n) in
      (\<exists>s. source b1 = Some s \<and> connectedPoint s = Some p \<and>
           typeConnectionSource b1 = Inr (Some s) \<and> outputKind kind b1 = Inr (Some (kind s)))) \<and>
   (let b2 = connectInput 1 q (connectInput 0 p (NodeRenderGraphBloomPostProcessBlock_new n)) in
      (\<exists>d. destination b2 = Some d \<and> connectedPoint d = Some q \<and>
           typeConnectionSource b2 = Inr (Some d) \<and> outputKind kind b2 = Inr (Some (kind d))))"
proof (intro conjI)
  show "destination blk = Some d \<longrightarrow>
      typeConnectionSource blk = Inr (if isConnected d then Some d else source blk)"
    by (simp add: typeConnectionSource_def)
next
  show "let b1 = connectInput 0 p (NodeRenderGraphBloomPostProcessBlock_new n) in
      (\<exists>s. source b1 = Some s \<and> connectedPoint s = Some p \<and>
           typeConnectionSource b1 = Inr (Some s) \<and> outputKind kind b1 = Inr (Some (kind s)))"
    unfolding Let_def typeConnectionSource_def outputKind_def bloom_source_only
    by (simp add: isConnected_simps) (simp add: connect_def)
next
  show "let b2 = connectInput 1 q (connectInput 0 p (NodeRenderGraphBloomPostProcessBlock_new n)) in
      (\<exists>d. destination b2 = Some d \<and> connectedPoint d = Some q \<and>
           typeConnectionSource b2 = Inr (Some d) \<and> outputKind kind b2 = Inr (Some (kind d)))"
    unfolding Let_def typeConnectionSource_def outputKind_def bloom_both
    by (simp add: isConnected_simps) (simp add: connect_def)
qed

theorem basedOnInput_resolution_witness:
  "outputKind cp_name (connectInput 0 (examplePoint ''scene'') (NodeRenderGraphBloomPostProcessBlock_new ''bloom''))
     = Inr (Some ''source'') \<and>
   outputKind cp_name (connectInput 1 (examplePoint ''target'')
       (connectInput 0 (examplePoint ''scene'') (NodeRenderGraphBloomPostProcessBlock_new ''bloom'')))
     = Inr (Some ''destination'') \<and>
   typeConnectionSource (connectInput 1 (examplePoint ''target'') (NodeRenderGraphBloomPostProcessBlock_new ''bloom''))
     = Inr (destination (connectInput 1 (examplePoint ''target'') (NodeRenderGraphBloomPostProcessBlock_new ''bloom'')))"
proof -
  let ?b = "connectInput 1 (examplePoint ''target'') (NodeRenderGraphBloomPostProcessBlock_new ''bloom'')"
  let ?d = "connect (examplePoint ''target'')
     (addAcceptedConnectionPointTypes TextureAll (newConnectionPoint ''destination'' Texture True))"
  have d: "destination ?b = Some ?d"
    by (simp add: destination_def connectInput_def bloom_new_inputs js_index_def)
  have c: "isConnected ?d" by (rule isConnected_simps)
  from basedOnInput_resolution[of ?b ?d "examplePoint ''scene''" "''bloom''" cp_name "examplePoint ''target''"]
  have "typeConnectionSource ?b = Inr (Some ?d)"
    and "\<exists>s. source (connectInput 0 (examplePoint ''scene'') (NodeRenderGraphBloomPostProcessBlock_new ''bloom'')) = Some s \<and>
           outputKind cp_name (connectInput 0 (examplePoint ''scene'') (NodeRenderGraphBloomPostProcessBlock_new ''bloom'')) = Inr (Some (cp_name s))"
    and "\<exists>d. destination (connectInput 1 (examplePoint ''target'')
              (connectInput 0 (examplePoint ''scene'') (NodeRenderGraphBloomPostProcessBlock_new ''bloom''))) = Some d \<and>
           outputKind cp_name (connectInput 1 (examplePoint ''target'')
              (connectInput 0 (examplePoint ''scene'') (NodeRenderGraphBloomPostProcessBlock_new ''bloom''))) = Inr (Some (cp_name d))"
    unfolding Let_def using d c by auto
  then show ?thesis
    unfolding bloom_source_only bloom_both d
    by (auto simp: connect_def addAcceptedConnectionPointTypes_def newConnectionPoint_def)
qed

subsection \<open>The teleport receiver\<close>

text \<open>Claim C6. For a receiver whose entry point is null, \<open>_customBuildStep\<close> returns
  without throwing and leaves the build state and the store as they were, whatever the
  build of an entry point would do; with an entry point it does what the build of that
  entry point does. \<open>_buildBlock\<close> changes nothing. A newly constructed receiver has no
  entry point and its output has no value, so its output stays unresolved.\<close>

theorem teleportOut_unpaired_build:
  "(entryPoint blk = None \<longrightarrow> customBuildStep build blk sh = Inr sh) \<and>
   (entryPoint blk = Some e \<longrightarrow> customBuildStep build blk sh = build e sh) \<and>
   buildBlock blk sh = sh \<and>
   entryPoint (NodeRenderGraphTeleportOutBlock_new n uid) = None \<and>
   map_option cp_value (out_output (NodeRenderGraphTeleportOutBlock_new n uid)) = Some None"
  by (simp add: customBuildStep_def buildBlock_def NodeRenderGraphTeleportOutBlock_new_def
      out_output_def js_index_def newConnectionPoint_def)

theorem teleportOut_unpaired_build_witness:
  "entryPoint (exampleReceiver None) = None \<and>
   customBuildStep (\<lambda>e sh. Inl (Error ''entry point build'')) (exampleReceiver None)
      ((), [TeleportOut (exampleReceiver None)]) = Inr ((), [TeleportOut (exampleReceiver None)]) \<and>
   buildBlock (exampleReceiver None) ((), [TeleportOut (exampleReceiver None)])
      = ((), [TeleportOut (exampleReceiver None)]) \<and>
   map_option cp_value (out_output (exampleReceiver None)) = Some None"
proof -
  have e: "entryPoint (exampleReceiver None) = None" by (simp add: exampleReceiver_def)
  have o: "map_option cp_value (out_output (exampleReceiver None)) = Some None"
    by (simp add: exampleReceiver_def out_output_def NodeRenderGraphTeleportOutBlock_new_def
        js_index_def newConnectionPoint_def)
  from teleportOut_unpaired_build[of "exampleReceiver None" "\<lambda>e sh. Inl (Error ''entry point build'')"
      "((), [TeleportOut (exampleReceiver None)])"] e o
  show ?thesis by simp
qed

text \<open>Claim C7. \<open>serialize\<close> adds the single key \<open>entryPoint\<close> to the object of the base
  class, and \<open>_deserialize\<close> sets \<open>_tempEntryPointUniqueId\<close> to the value stored under
  that key and does not touch \<open>_entryPoint\<close>. For a receiver paired with an entry point,
  the stored value is the number \<open>uniqueId\<close> of the entry point, so after
  \<open>_deserialize(serialize())\<close> the field \<open>_tempEntryPointUniqueId\<close> is that number.\<close>

theorem teleportOut_serialize_roundtrip:
  "Some (tempEntryPointUniqueId (deserialize superDeserialize (serialize superSerialize h blk) target))
      = serialize superSerialize h blk ''entryPoint'' \<and>
   (\<forall>k. k \<noteq> ''entryPoint'' \<longrightarrow> serialize superSerialize h blk k = superSerialize blk k) \<and>
   entryPoint (deserialize superDeserialize obj target) = entryPoint (superDeserialize obj target) \<and>
   (entryPoint blk = Some e \<and> deref h e = Some (TeleportIn src) \<longrightarrow>
      serialize superSerialize h blk ''entryPoint'' = Some (JNumber (in_uniqueId src)) \<and>
      tempEntryPointUniqueId (deserialize superDeserialize (serialize superSerialize h blk) target)
        = JNumber (in_uniqueId src))"
  by (simp add: serialize_def deserialize_def uniqueIdOf_def)

theorem teleportOut_serialize_roundtrip_witness:
  "entryPoint (exampleReceiver (Some 0)) = Some 0 \<and>
   deref exampleStore 0 = Some (TeleportIn exampleSource) \<and>
   serialize exampleSuperSerialize exampleStore (exampleReceiver (Some 0)) ''entryPoint'' = Some (JNumber 41) \<and>
   tempEntryPointUniqueId (deserialize exampleSuperDeserialize
       (serialize exampleSuperSerialize exampleStore (exampleReceiver (Some 0)))
       (NodeRenderGraphTeleportOutBlock_new [] 43)) = JNumber 41 \<and>
   serialize exampleSuperSerialize exampleStore (exampleReceiver (Some 0)) ''name'' = Some (JString ''> source'')"
proof -
  have 1: "entryPoint (exampleReceiver (Some 0)) = Some 0" by (simp add: exampleReceiver_def)
  have 2: "deref exampleStore 0 = Some (TeleportIn exampleSource)"
    by (simp add: deref_def js_index_def exampleStore_def)
  have 3: "in_uniqueId exampleSource = 41" by (simp add: exampleSource_def)
  have 4: "exampleSuperSerialize (exampleReceiver (Some 0)) ''name'' = Some (JString ''> source'')"
    by (simp add: exampleSuperSerialize_def exampleReceiver_def NodeRenderGraphTeleportOutBlock_new_def)
  have 5: "''name'' \<noteq> ''entryPoint''" by simp
  from teleportOut_serialize_roundtrip[of exampleSuperDeserialize exampleSuperSerialize exampleStore
      "exampleReceiver (Some 0)" "NodeRenderGraphTeleportOutBlock_new [] 43" Map.empty 0 exampleSource]
    1 2 3 4 5
  show ?thesis by simp
qed

text \<open>A receiver without an entry point stores the empty string.\<close>

lemma serialize_unpaired:
  "entryPoint blk = None \<Longrightarrow> serialize superSerialize h blk ''entryPoint'' = Some (JString [])"
  by (simp add: serialize_def)

text \<open>Claim C8. \<open>clone\<close> returns the block that \<open>super.clone()\<close> returns. When the
  receiver has an entry point E, \<open>E.attachToEndpoint\<close> is called on the copy: afterwards
  the entry point of the copy is E and the copy is the last endpoint of E. When the
  receiver has no entry point, nothing is attached: the result is that of
  \<open>super.clone()\<close>.\<close>

theorem teleportOut_clone:
  assumes "superClone blk h = (c, h1)"
  shows "(entryPoint blk = None \<longrightarrow> clone superClone blk h = (c, h1)) \<and>
     (\<forall>e src cb. entryPoint blk = Some e \<and> deref h1 e = Some (TeleportIn src) \<and>
          deref h1 c = Some (TeleportOut cb) \<longrightarrow>
        (\<exists>h2. clone superClone blk h = (c, h2) \<and> h2 = attachToEndpoint e c h1 \<and>
           deref h2 c = Some (TeleportOut (cb\<lparr>entryPoint := Some e\<rparr>)) \<and>
           deref h2 e = Some (TeleportIn (src\<lparr>endpoints := endpoints src @ [c]\<rparr>))))"
proof (intro conjI allI impI)
  assume "entryPoint blk = None"
  with assms show "clone superClone blk h = (c, h1)" by (simp add: clone_def)
next
  fix e src cb
  assume a: "entryPoint blk = Some e \<and> deref h1 e = Some (TeleportIn src) \<and>
          deref h1 c = Some (TeleportOut cb)"
  then have ne: "e \<noteq> c" by auto
  from a have le: "e < length h1" and lc: "c < length h1"
    by (auto simp: deref_def js_index_def split: if_splits)
  from a have att: "attachToEndpoint e c h1 =
      (h1[e := TeleportIn (src\<lparr>endpoints := endpoints src @ [c]\<rparr>)])
         [c := TeleportOut (cb\<lparr>entryPoint := Some e\<rparr>)]"
    by (simp add: attachToEndpoint_def)
  show "\<exists>h2. clone superClone blk h = (c, h2) \<and> h2 = attachToEndpoint e c h1 \<and>
           deref h2 c = Some (TeleportOut (cb\<lparr>entryPoint := Some e\<rparr>)) \<and>
           deref h2 e = Some (TeleportIn (src\<lparr>endpoints := endpoints src @ [c]\<rparr>))"
    using assms a ne le lc by (simp add: clone_def att deref_def js_index_def)
qed

theorem teleportOut_clone_witness:
  "exampleSuperClone (exampleReceiver (Some 0)) exampleStore
     = (2, exampleStore @ [TeleportOut (NodeRenderGraphTeleportOutBlock_new ''> source'' 43)]) \<and>
   clone exampleSuperClone (exampleReceiver (Some 0)) exampleStore =
     (2, [TeleportIn (exampleSource\<lparr>endpoints := [1, 2]\<rparr>),
          TeleportOut (exampleReceiver (Some 0)),
          TeleportOut ((NodeRenderGraphTeleportOutBlock_new ''> source'' 43)\<lparr>entryPoint := Some 0\<rparr>)]) \<and>
   clone exampleSuperClone (exampleReceiver None) [TeleportOut (exampleReceiver None)] =
     (1, [TeleportOut (exampleReceiver None),
          TeleportOut (NodeRenderGraphTeleportOutBlock_new ''> source'' 43)])"
proof -
  let ?blk = "exampleReceiver (Some 0)"
  let ?c = "NodeRenderGraphTeleportOutBlock_new ''> source'' 43"
  have 1: "exampleSuperClone ?blk exampleStore = (2, exampleStore @ [TeleportOut ?c])"
    by (simp add: exampleSuperClone_def exampleStore_def exampleReceiver_def
        NodeRenderGraphTeleportOutBlock_new_def)
  have 2: "entryPoint ?blk = Some 0" by (simp add: exampleReceiver_def)
  have 3: "deref (exampleStore @ [TeleportOut ?c]) 0 = Some (TeleportIn exampleSource)"
    by (simp add: deref_def js_index_def exampleStore_def)
  have 4: "deref (exampleStore @ [TeleportOut ?c]) 2 = Some (TeleportOut ?c)"
    by (simp add: deref_def js_index_def exampleStore_def)
  have 5: "exampleSuperClone (exampleReceiver None) [TeleportOut (exampleReceiver None)] =
     (1, [TeleportOut (exampleReceiver None), TeleportOut ?c])"
    by (simp add: exampleSuperClone_def exampleReceiver_def NodeRenderGraphTeleportOutBlock_new_def)
  have 6: "entryPoint (exampleReceiver None) = None" by (simp add: exampleReceiver_def)
  from teleportOut_clone[of exampleSuperClone ?blk exampleStore 2 "exampleStore @ [TeleportOut ?c]", OF 1] 2 3 4
  have a: "clone exampleSuperClone ?blk exampleStore =
     (2, attachToEndpoint 0 2 (exampleStore @ [TeleportOut ?c]))" by blast
  have b: "attachToEndpoint 0 2 (exampleStore @ [TeleportOut ?c]) =
     [TeleportIn (exampleSource\<lparr>endpoints := [1, 2]\<rparr>), TeleportOut ?blk,
      TeleportOut (?c\<lparr>entryPoint := Some 0\<rparr>)]"
    by (simp add: attachToEndpoint_def deref_def js_index_def exampleStore_def exampleSource_def)
  from teleportOut_clone[of exampleSuperClone "exampleReceiver None" "[TeleportOut (exampleReceiver None)]"
      1 "[TeleportOut (exampleReceiver None), TeleportOut ?c]", OF 5] 6
  have c: "clone exampleSuperClone (exampleReceiver None) [TeleportOut (exampleReceiver None)] =
     (1, [TeleportOut (exampleReceiver None), TeleportOut ?c])" by blast
  show ?thesis using 1 a b c by simp
qed

end
